theory Spec2Isabelle
  imports Complex_Main "HOL-Library.AList"
begin

section \<open>Values, dictionaries and errors\<close>

text \<open>
  The script of \<^verbatim>\<open>ansible/inventory/dynamic_inventory.py\<close> shapes Python dictionaries
  that are printed as JSON. A Python dictionary is an association list in insertion
  order (lookup \<open>map_of\<close>, assignment \<open>AList.update\<close>: an existing key keeps its
  place, a new key goes to the end). Python's \<open>None\<close> is \<open>JNull\<close>.
\<close>

datatype json =
    JNull
  | JBool bool
  | JInt int
  | JFloat rat
  | JStr string
  | JArr "json list"
  | JObj "(string \<times> json) list"

type_synonym dict = "(string \<times> json) list"

datatype py_error = AttributeError | KeyError

text \<open>Python truth value of a parsed JSON value (\<^verbatim>\<open>if x:\<close>, \<^verbatim>\<open>if not x:\<close>).\<close>

fun truthy :: "json \<Rightarrow> bool" where
  "truthy JNull = False"
| "truthy (JBool b) = b"
| "truthy (JInt n) = (n \<noteq> 0)"
| "truthy (JFloat r) = (r \<noteq> 0)"
| "truthy (JStr s) = (s \<noteq> [])"
| "truthy (JArr xs) = (xs \<noteq> [])"
| "truthy (JObj kvs) = (kvs \<noteq> [])"

text \<open>Truth value of an optional string: \<open>None\<close> and the empty string are false.\<close>

fun truthy_str :: "string option \<Rightarrow> bool" where
  "truthy_str None = False"
| "truthy_str (Some s) = (s \<noteq> [])"

text \<open>\<^verbatim>\<open>x.get(key, default)\<close>: only a dictionary has the method.\<close>

fun py_get :: "json \<Rightarrow> string \<Rightarrow> json \<Rightarrow> py_error + json" where
  "py_get (JObj kvs) k dflt = Inr (case map_of kvs k of None \<Rightarrow> dflt | Some v \<Rightarrow> v)"
| "py_get _ k dflt = Inl AttributeError"

text \<open>A field of a cloud API record that may be absent, as a JSON value.\<close>

fun opt_json :: "string option \<Rightarrow> json" where
  "opt_json None = JNull"
| "opt_json (Some s) = JStr s"

text \<open>\<^verbatim>\<open>os.path.join\<close> on POSIX, for two components.\<close>

definition path_join :: "string \<Rightarrow> string \<Rightarrow> string" where
  "path_join a b =
     (if b \<noteq> [] \<and> hd b = CHR ''/'' then b
      else if a = [] \<or> last a = CHR ''/'' then a @ b
      else a @ ''/'' @ b)"

section \<open>The inventory document\<close>

text \<open>
  \<^verbatim>\<open>self.inventory\<close> is one dictionary: the reserved key \<^verbatim>\<open>_meta\<close> holds
  \<^verbatim>\<open>{'hostvars': {...}}\<close>, every other key is a group, a dictionary with an optional
  \<^verbatim>\<open>hosts\<close> list and optional \<^verbatim>\<open>vars\<close>. The record keeps the two apart; \<open>has_key\<close>
  is the test \<^verbatim>\<open>name in self.inventory\<close>, which is true of \<^verbatim>\<open>_meta\<close>.
\<close>

record group =
  hosts :: "string list option"
  vars :: "dict option"

record inventory =
  hostvars :: "(string \<times> dict) list"
  groups :: "(string \<times> group) list"

definition init_inventory :: inventory where
  "init_inventory = \<lparr>hostvars = [], groups = []\<rparr>"

definition has_key :: "inventory \<Rightarrow> string \<Rightarrow> bool" where
  "has_key doc name = (name = ''_meta'' \<or> map_of (groups doc) name \<noteq> None)"

definition set_hostvars :: "inventory \<Rightarrow> string \<Rightarrow> dict \<Rightarrow> inventory" where
  "set_hostvars doc hostname hv = doc\<lparr>hostvars := AList.update hostname hv (hostvars doc)\<rparr>"

definition set_group :: "inventory \<Rightarrow> string \<Rightarrow> group \<Rightarrow> inventory" where
  "set_group doc name g = doc\<lparr>groups := AList.update name g (groups doc)\<rparr>"

text \<open>
  \<^verbatim>\<open>self.inventory[name]['hosts']\<close>: a \<^verbatim>\<open>KeyError\<close> when the group is missing, when it
  has no \<^verbatim>\<open>hosts\<close> key, and for \<^verbatim>\<open>_meta\<close>, whose dictionary has only \<^verbatim>\<open>hostvars\<close>.
\<close>

definition hosts_of :: "inventory \<Rightarrow> string \<Rightarrow> py_error + string list" where
  "hosts_of doc name =
     (if name = ''_meta'' then Inl KeyError
      else case map_of (groups doc) name of
             None \<Rightarrow> Inl KeyError
           | Some g \<Rightarrow> (case hosts g of None \<Rightarrow> Inl KeyError | Some hs \<Rightarrow> Inr hs))"

text \<open>The hostname is a member of the host list of the group.\<close>

definition member_of_group :: "inventory \<Rightarrow> string \<Rightarrow> string \<Rightarrow> bool" where
  "member_of_group doc name hostname =
     (case hosts_of doc name of Inl _ \<Rightarrow> False | Inr hs \<Rightarrow> hostname \<in> set hs)"

text \<open>Every group of the document has a host list.\<close>

definition groups_have_hosts :: "inventory \<Rightarrow> bool" where
  "groups_have_hosts doc = list_all (\<lambda>(name, g). hosts g \<noteq> None) (groups doc)"

text \<open>No host list of the document names a host twice.\<close>

definition no_duplicates :: "inventory \<Rightarrow> bool" where
  "no_duplicates doc =
     list_all (\<lambda>(name, g). case hosts g of None \<Rightarrow> True | Some hs \<Rightarrow> distinct hs) (groups doc)"

text \<open>\<^verbatim>\<open>self.inventory[name]['hosts'].append(hostname)\<close>.\<close>

definition append_host :: "inventory \<Rightarrow> string \<Rightarrow> string \<Rightarrow> py_error + inventory" where
  "append_host doc name hostname =
     (if name = ''_meta'' then Inl KeyError
      else case map_of (groups doc) name of
             None \<Rightarrow> Inl KeyError
           | Some g \<Rightarrow>
               (case hosts g of
                  None \<Rightarrow> Inl KeyError
                | Some hs \<Rightarrow> Inr (set_group doc name (g\<lparr>hosts := Some (hs @ [hostname])\<rparr>))))"

section \<open>The process and what is outside the script\<close>

text \<open>
  The process state the script changes: its working directory, and the log of the
  queries it has sent to the cloud API.
\<close>

record query =
  q_region :: string
  q_project :: string
  q_states :: "string list"

record proc =
  cwd :: string
  api_log :: "query list"

text \<open>
  What the operating system and the tool do during one call of
  \<^verbatim>\<open>_run_terraform_command\<close>, call by call in program order: \<^verbatim>\<open>os.path.exists\<close>,
  \<^verbatim>\<open>os.getcwd\<close>, \<^verbatim>\<open>os.chdir(terraform_dir)\<close>, \<^verbatim>\<open>subprocess.run(..., check=True)\<close>,
  \<^verbatim>\<open>os.chdir(old_cwd)\<close> after the run, and \<^verbatim>\<open>os.chdir(old_cwd)\<close> of the
  \<^verbatim>\<open>finally\<close> block. Each \<open>_ok\<close> field says that the call does not raise.
\<close>

datatype run_result =
    CalledProcessError
  | OtherException
  | Completed string

record invocation =
  dir_exists :: bool
  getcwd_ok :: bool
  chdir_ok :: bool
  run_result :: run_result
  restore_ok :: bool
  final_restore_ok :: bool

text \<open>An instance record of the cloud API; an absent key is \<open>None\<close>.\<close>

record placement =
  AvailabilityZone :: "string option"

record ec2_instance =
  KeyName :: "string option"
  Tags :: "(string \<times> string) list option"
  PublicIpAddress :: "string option"
  PrivateIpAddress :: "string option"
  InstanceId :: "string option"
  InstanceType :: "string option"
  Placement :: "placement option"

text \<open>
  Everything outside the script: the project root that \<^verbatim>\<open>_find_project_root\<close> found,
  the tool and the operating system (by directory and command line; one generation runs
  each command at most once in each directory, so a function of the two describes any run),
  \<^verbatim>\<open>describe_instances\<close> of the cloud API (\<open>Inl\<close>: the client or the call raises;
  \<open>Inr\<close>: the reservations, each a list of instances), \<^verbatim>\<open>json.loads\<close> (\<open>None\<close>: it
  raises \<^verbatim>\<open>JSONDecodeError\<close>) and Python's \<^verbatim>\<open>str\<close> as used by an f-string.
\<close>

record extern =
  project_root :: string
  tool :: "string \<Rightarrow> string list \<Rightarrow> invocation"
  describe_instances :: "query \<Rightarrow> unit + ec2_instance list list"
  loads :: "string \<Rightarrow> json option"
  str_of :: "json \<Rightarrow> string"

section \<open>The state-backed generator\<close>

definition terraform_environments :: "string list" where
  "terraform_environments = [''dev'', ''staging'', ''prod'']"

definition terraform_dir :: "extern \<Rightarrow> string \<Rightarrow> string" where
  "terraform_dir X env =
     path_join (path_join (path_join (project_root X) ''terraform'') ''environments'') env"

text \<open>The \<^verbatim>\<open>finally\<close> block: \<^verbatim>\<open>try: os.chdir(old_cwd) except: pass\<close>.\<close>

definition finally_chdir :: "invocation \<Rightarrow> string \<Rightarrow> proc \<Rightarrow> proc" where
  "finally_chdir i old_cwd p = (if final_restore_ok i then p\<lparr>cwd := old_cwd\<rparr> else p)"

text \<open>
  \<^verbatim>\<open>_run_terraform_command\<close>. The result is the parsed output, \<open>JNull\<close> for \<^verbatim>\<open>None\<close>.
  When \<^verbatim>\<open>os.getcwd\<close> raises, \<^verbatim>\<open>old_cwd\<close> is unbound and the \<^verbatim>\<open>finally\<close> block's
  \<^verbatim>\<open>NameError\<close> is swallowed. After \<^verbatim>\<open>os.chdir(terraform_dir)\<close> the working directory
  is that path, taken from the old working directory when it is relative. Every handler
  returns \<^verbatim>\<open>None\<close> after a warning; the \<^verbatim>\<open>finally\<close> block runs on every path that
  entered the \<^verbatim>\<open>try\<close>.
\<close>

definition run_terraform_command ::
  "extern \<Rightarrow> string \<Rightarrow> string list \<Rightarrow> proc \<Rightarrow> json \<times> proc" where
  "run_terraform_command X env command p =
     (let dir = terraform_dir X env; i = tool X dir command in
      if \<not> dir_exists i then (JNull, p)
      else if \<not> getcwd_ok i then (JNull, p)
      else
        let old_cwd = cwd p in
        if \<not> chdir_ok i then (JNull, finally_chdir i old_cwd p)
        else
          let p1 = p\<lparr>cwd := path_join (cwd p) dir\<rparr> in
          case run_result i of
            CalledProcessError \<Rightarrow> (JNull, finally_chdir i old_cwd p1)
          | OtherException \<Rightarrow> (JNull, finally_chdir i old_cwd p1)
          | Completed out \<Rightarrow>
              if \<not> restore_ok i then (JNull, finally_chdir i old_cwd p1)
              else
                let p2 = p1\<lparr>cwd := old_cwd\<rparr> in
                if out \<noteq> [] then
                  (case loads X out of
                     None \<Rightarrow> (JNull, finally_chdir i old_cwd p2)
                   | Some j \<Rightarrow> (j, finally_chdir i old_cwd p2))
                else (JObj [], finally_chdir i old_cwd p2))"

definition get_terraform_outputs :: "extern \<Rightarrow> string \<Rightarrow> proc \<Rightarrow> json \<times> proc" where
  "get_terraform_outputs X env p =
     run_terraform_command X env [''terraform'', ''output'', ''-json''] p"

text \<open>
  \<^verbatim>\<open>_check_terraform_state\<close>:
  \<^verbatim>\<open>result is not None and result.get('values') is not None\<close>, outside any \<^verbatim>\<open>try\<close>.
\<close>

definition check_terraform_state ::
  "extern \<Rightarrow> string \<Rightarrow> proc \<Rightarrow> (py_error + bool) \<times> proc" where
  "check_terraform_state X env p =
     (case run_terraform_command X env [''terraform'', ''show'', ''-json''] p of
        (result, p') \<Rightarrow>
          (if result = JNull then (Inr False, p')
           else case py_get result ''values'' JNull of
                  Inl e \<Rightarrow> (Inl e, p')
                | Inr v \<Rightarrow> (Inr (v \<noteq> JNull), p')))"

text \<open>\<^verbatim>\<open>_get_ec2_instances_from_aws\<close>; every exception gives the empty list.\<close>

definition fallback_query :: "string \<Rightarrow> query" where
  "fallback_query region_name =
     \<lparr>q_region = region_name, q_project = ''iac-multi-environment'',
      q_states = [''running'', ''pending'']\<rparr>"

definition get_ec2_instances_from_aws ::
  "extern \<Rightarrow> string \<Rightarrow> proc \<Rightarrow> ec2_instance list \<times> proc" where
  "get_ec2_instances_from_aws X region_name p =
     (let q = fallback_query region_name;
          p' = p\<lparr>api_log := api_log p @ [q]\<rparr>
      in case describe_instances X q of
           Inl _ \<Rightarrow> ([], p')
         | Inr reservations \<Rightarrow> (concat reservations, p'))"

text \<open>\<^verbatim>\<open>outputs.get(name, {}).get('value')\<close>.\<close>

definition output_value :: "json \<Rightarrow> string \<Rightarrow> py_error + json" where
  "output_value outputs name =
     (case py_get outputs name (JObj []) of
        Inl e \<Rightarrow> Inl e
      | Inr entry \<Rightarrow> py_get entry ''value'' JNull)"

definition ssh_common_args :: string where
  "ssh_common_args = ''-o StrictHostKeyChecking=no -o UserKnownHostsFile=/dev/null''"

text \<open>
  \<^verbatim>\<open>_extract_host_info_from_terraform\<close>; its \<^verbatim>\<open>except Exception\<close> turns every error
  into \<^verbatim>\<open>None\<close>.
\<close>

definition extract_host_info_from_terraform ::
  "extern \<Rightarrow> string \<Rightarrow> json \<Rightarrow> dict option" where
  "extract_host_info_from_terraform X env outputs =
     (case output_value outputs ''public_ip'' of Inl _ \<Rightarrow> None | Inr public_ip \<Rightarrow>
     (case output_value outputs ''private_ip'' of Inl _ \<Rightarrow> None | Inr private_ip \<Rightarrow>
     (case output_value outputs ''instance_id'' of Inl _ \<Rightarrow> None | Inr instance_id \<Rightarrow>
     (case output_value outputs ''key_name'' of Inl _ \<Rightarrow> None | Inr key_name \<Rightarrow>
        if \<not> truthy public_ip then None
        else Some
          [(''ansible_host'', public_ip),
           (''ansible_user'', JStr ''ubuntu''),
           (''ansible_ssh_private_key_file'', JStr (''~/.ssh/'' @ str_of X key_name @ ''.pem'')),
           (''environment'', JStr env),
           (''private_ip'', private_ip),
           (''instance_id'', instance_id),
           (''key_name'', key_name),
           (''ansible_ssh_common_args'', JStr ssh_common_args)]))))"

definition tags_of :: "ec2_instance \<Rightarrow> (string \<times> string) list" where
  "tags_of i = (case Tags i of None \<Rightarrow> [] | Some ts \<Rightarrow> ts)"

definition key_name_of :: "ec2_instance \<Rightarrow> string" where
  "key_name_of i = (case KeyName i of None \<Rightarrow> ''iac-demo-key'' | Some k \<Rightarrow> k)"

text \<open>
  \<^verbatim>\<open>_extract_host_info_from_ec2\<close>: the environment is the value of the first tag
  whose key is \<^verbatim>\<open>Environment\<close> (the loop breaks there).
\<close>

definition extract_host_info_from_ec2 :: "ec2_instance \<Rightarrow> dict option" where
  "extract_host_info_from_ec2 i =
     (let env = map_of (tags_of i) ''Environment'' in
      if \<not> truthy_str env then None
      else if \<not> truthy_str (PublicIpAddress i) then None
      else Some
        [(''ansible_host'', opt_json (PublicIpAddress i)),
         (''ansible_user'', JStr ''ubuntu''),
         (''ansible_ssh_private_key_file'', JStr (''~/.ssh/'' @ key_name_of i @ ''.pem'')),
         (''environment'', opt_json env),
         (''private_ip'', opt_json (PrivateIpAddress i)),
         (''instance_id'', opt_json (InstanceId i)),
         (''key_name'', JStr (key_name_of i)),
         (''ansible_ssh_common_args'', JStr ssh_common_args),
         (''source'', JStr ''aws-api'')])"

definition all_vars :: dict where
  "all_vars =
     [(''ansible_python_interpreter'', JStr ''/usr/bin/python3''),
      (''ansible_ssh_common_args'', JStr ssh_common_args),
      (''ansible_host_key_checking'', JBool False)]"

text \<open>
  \<^verbatim>\<open>_add_host_to_inventory\<close>. The group \<^verbatim>\<open>all\<close> is created with \<^verbatim>\<open>vars\<close> only: it
  gets no \<^verbatim>\<open>hosts\<close> key and nothing is appended to it.
\<close>

definition add_host_to_inventory :: "inventory \<Rightarrow> string \<Rightarrow> dict \<Rightarrow> py_error + inventory" where
  "add_host_to_inventory doc env host_info =
     (let hostname = env @ ''-web-server'';
          doc1 = set_hostvars doc hostname host_info;
          doc2 = (if \<not> has_key doc1 ''web_servers''
                  then set_group doc1 ''web_servers'' \<lparr>hosts = Some [], vars = Some []\<rparr>
                  else doc1)
      in (case append_host doc2 ''web_servers'' hostname of
            Inl e \<Rightarrow> Inl e
          | Inr doc3 \<Rightarrow>
              (let doc4 = (if \<not> has_key doc3 env
                           then set_group doc3 env
                                  \<lparr>hosts = Some [], vars = Some [(''environment'', JStr env)]\<rparr>
                           else doc3)
               in (case append_host doc4 env hostname of
                     Inl e \<Rightarrow> Inl e
                   | Inr doc5 \<Rightarrow>
                       Inr (if \<not> has_key doc5 ''all''
                            then set_group doc5 ''all'' \<lparr>hosts = None, vars = Some all_vars\<rparr>
                            else doc5)))))"

text \<open>
  One iteration of the loop over the environments of \<^verbatim>\<open>generate_inventory\<close>, on the
  document and \<^verbatim>\<open>hosts_found\<close>.
\<close>

definition env_step ::
  "extern \<Rightarrow> string \<Rightarrow> inventory \<times> nat \<Rightarrow> proc \<Rightarrow> (py_error + inventory \<times> nat) \<times> proc" where
  "env_step X env s p =
     (case check_terraform_state X env p of
        (Inl e, p1) \<Rightarrow> (Inl e, p1)
      | (Inr False, p1) \<Rightarrow> (Inr s, p1)
      | (Inr True, p1) \<Rightarrow>
          (case get_terraform_outputs X env p1 of
             (outputs, p2) \<Rightarrow>
               if truthy outputs then
                 (case extract_host_info_from_terraform X env outputs of
                    None \<Rightarrow> (Inr s, p2)
                  | Some host_info \<Rightarrow>
                      (case add_host_to_inventory (fst s) env host_info of
                         Inl e \<Rightarrow> (Inl e, p2)
                       | Inr doc' \<Rightarrow> (Inr (doc', Suc (snd s)), p2)))
               else (Inr s, p2)))"

fun env_loop ::
  "extern \<Rightarrow> string list \<Rightarrow> inventory \<times> nat \<Rightarrow> proc \<Rightarrow> (py_error + inventory \<times> nat) \<times> proc" where
  "env_loop X [] s p = (Inr s, p)"
| "env_loop X (env # envs) s p =
     (case env_step X env s p of
        (Inl e, p') \<Rightarrow> (Inl e, p')
      | (Inr s', p') \<Rightarrow> env_loop X envs s' p')"

text \<open>
  The fallback loop over the instances of the cloud API. \<^verbatim>\<open>hosts_found\<close> is only logged
  after this point and is left out.
\<close>

definition fallback_step ::
  "string option \<Rightarrow> inventory \<Rightarrow> ec2_instance \<Rightarrow> py_error + inventory" where
  "fallback_step specific_env doc i =
     (case extract_host_info_from_ec2 i of
        None \<Rightarrow> Inr doc
      | Some host_info \<Rightarrow>
          (case map_of host_info ''environment'' of
             Some (JStr env) \<Rightarrow>
               if \<not> truthy_str specific_env \<or> Some env = specific_env
               then add_host_to_inventory doc env host_info
               else Inr doc
           | _ \<Rightarrow> Inl KeyError))"

fun fallback_loop ::
  "string option \<Rightarrow> ec2_instance list \<Rightarrow> inventory \<Rightarrow> py_error + inventory" where
  "fallback_loop specific_env [] doc = Inr doc"
| "fallback_loop specific_env (i # insts) doc =
     (case fallback_step specific_env doc i of
        Inl e \<Rightarrow> Inl e
      | Inr doc' \<Rightarrow> fallback_loop specific_env insts doc')"

definition environments_of :: "string option \<Rightarrow> string list" where
  "environments_of specific_env =
     (case specific_env of
        None \<Rightarrow> terraform_environments
      | Some e \<Rightarrow> if e \<noteq> [] then [e] else terraform_environments)"

text \<open>
  \<^verbatim>\<open>TerraformInventory.generate_inventory\<close>, from the document \<^verbatim>\<open>self.inventory\<close> holds
  when it is called. \<open>Inl\<close>: the exception leaves the method.
\<close>

definition generate_inventory ::
  "extern \<Rightarrow> string option \<Rightarrow> inventory \<Rightarrow> proc \<Rightarrow> (py_error + inventory) \<times> proc" where
  "generate_inventory X specific_env doc p =
     (case env_loop X (environments_of specific_env) (doc, 0) p of
        (Inl e, p1) \<Rightarrow> (Inl e, p1)
      | (Inr (doc1, hosts_found), p1) \<Rightarrow>
          if hosts_found = 0 then
            (case get_ec2_instances_from_aws X ''ap-southeast-1'' p1 of
               (ec2_instances, p2) \<Rightarrow> (fallback_loop specific_env ec2_instances doc1, p2))
          else (Inr doc1, p1))"

text \<open>\<^verbatim>\<open>get_host_vars\<close>: \<^verbatim>\<open>self.inventory['_meta']['hostvars'].get(hostname, {})\<close>.\<close>

definition get_host_vars :: "inventory \<Rightarrow> string \<Rightarrow> dict" where
  "get_host_vars doc hostname =
     (case map_of (hostvars doc) hostname of None \<Rightarrow> [] | Some hv \<Rightarrow> hv)"

section \<open>The API-backed generator\<close>

text \<open>
  \<^verbatim>\<open>EC2Inventory._add_to_group\<close>. It raises where \<^verbatim>\<open>self.inventory[group_name]['hosts']\<close>
  does, before anything is changed.
\<close>

definition add_to_group :: "inventory \<Rightarrow> string \<Rightarrow> string \<Rightarrow> py_error + inventory" where
  "add_to_group doc group_name hostname =
     (let doc1 = (if \<not> has_key doc group_name
                  then set_group doc group_name \<lparr>hosts = Some [], vars = None\<rparr>
                  else doc)
      in case hosts_of doc1 group_name of
           Inl e \<Rightarrow> Inl e
         | Inr hs \<Rightarrow>
             if hostname \<notin> set hs then append_host doc1 group_name hostname
             else Inr doc1)"

text \<open>The dictionary comprehension over the tag list: a later tag with the same key wins.\<close>

definition tag_dict :: "ec2_instance \<Rightarrow> (string \<times> string) list" where
  "tag_dict i = foldl (\<lambda>d (k, v). AList.update k v d) [] (tags_of i)"

text \<open>\<^verbatim>\<open>instance_type.replace('.', '_')\<close>.\<close>

fun replace_dots :: "string \<Rightarrow> string" where
  "replace_dots [] = []"
| "replace_dots (c # cs) = (if c = CHR ''.'' then CHR ''_'' else c) # replace_dots cs"

definition type_group :: "ec2_instance \<Rightarrow> string" where
  "type_group i =
     ''type_'' @ replace_dots (case InstanceType i of None \<Rightarrow> ''unknown'' | Some t \<Rightarrow> t)"

definition ec2_hostname :: "ec2_instance \<Rightarrow> string" where
  "ec2_hostname i =
     (case map_of (tag_dict i) ''Environment'' of None \<Rightarrow> [] | Some e \<Rightarrow> e) @ ''-'' @
     (case map_of (tag_dict i) ''Name'' of None \<Rightarrow> ''unknown'' | Some n \<Rightarrow> n)"

definition ec2_host_vars :: "ec2_instance \<Rightarrow> dict" where
  "ec2_host_vars i =
     [(''ansible_host'', opt_json (PublicIpAddress i)),
      (''ansible_user'', JStr ''ubuntu''),
      (''ansible_ssh_private_key_file'', JStr (''~/.ssh/'' @ key_name_of i @ ''.pem'')),
      (''private_ip'', opt_json (PrivateIpAddress i)),
      (''instance_id'', opt_json (InstanceId i)),
      (''instance_type'', opt_json (InstanceType i)),
      (''availability_zone'',
         opt_json (case Placement i of None \<Rightarrow> None | Some pl \<Rightarrow> AvailabilityZone pl)),
      (''environment'', opt_json (map_of (tag_dict i) ''Environment'')),
      (''tags'', JObj (map (\<lambda>(k, v). (k, JStr v)) (tag_dict i))),
      (''ansible_ssh_common_args'', JStr ''-o StrictHostKeyChecking=no'')]"

text \<open>
  How the body of \<^verbatim>\<open>_process_instance\<close> ends: by one of its two early returns, at its
  last statement, or in the handler of its \<^verbatim>\<open>except Exception\<close>, which logs the error.
  The document keeps what the body did before it raised.
\<close>

datatype ending = Skipped | Inserted | Raised py_error

definition process_body :: "inventory \<Rightarrow> ec2_instance \<Rightarrow> inventory \<times> ending" where
  "process_body doc i =
     (let environment = map_of (tag_dict i) ''Environment'' in
      if \<not> truthy_str environment then (doc, Skipped)
      else
        let hostname = ec2_hostname i in
        if \<not> truthy_str (PublicIpAddress i) then (doc, Skipped)
        else
          let doc1 = set_hostvars doc hostname (ec2_host_vars i) in
          (case add_to_group doc1 ''all'' hostname of
             Inl e \<Rightarrow> (doc1, Raised e)
           | Inr doc2 \<Rightarrow>
          (case add_to_group doc2 ''web_servers'' hostname of
             Inl e \<Rightarrow> (doc2, Raised e)
           | Inr doc3 \<Rightarrow>
          (case add_to_group doc3 (the environment) hostname of
             Inl e \<Rightarrow> (doc3, Raised e)
           | Inr doc4 \<Rightarrow>
          (case add_to_group doc4 (type_group i) hostname of
             Inl e \<Rightarrow> (doc4, Raised e)
           | Inr doc5 \<Rightarrow> (doc5, Inserted))))))"

definition process_instance :: "inventory \<Rightarrow> ec2_instance \<Rightarrow> inventory" where
  "process_instance doc i = fst (process_body doc i)"

text \<open>
  \<^verbatim>\<open>EC2Inventory.generate_inventory\<close>: the two nested loops over the reservations and
  their instances; when the client or the call raises, the document as it is.
\<close>

definition ec2_query :: "string \<Rightarrow> query" where
  "ec2_query region_name =
     \<lparr>q_region = region_name, q_project = ''iac-multi-environment'', q_states = [''running'']\<rparr>"

definition ec2_generate_inventory ::
  "extern \<Rightarrow> string \<Rightarrow> inventory \<Rightarrow> proc \<Rightarrow> inventory \<times> proc" where
  "ec2_generate_inventory X region_name doc p =
     (let q = ec2_query region_name;
          p' = p\<lparr>api_log := api_log p @ [q]\<rparr>
      in case describe_instances X q of
           Inl _ \<Rightarrow> (doc, p')
         | Inr reservations \<Rightarrow>
             (foldl (\<lambda>doc0 reservation. foldl process_instance doc0 reservation)
                doc reservations, p'))"

section \<open>The dispatcher\<close>

datatype source = Terraform | EC2

record args =
  arg_list :: bool
  arg_host :: "string option"
  arg_env :: "string option"
  arg_source :: source
  arg_region :: string
  arg_verbose :: bool

text \<open>
  What \<^verbatim>\<open>main\<close> does last: print the document or a host's variables (exit status 0),
  print the help text (exit status 1), or log an exception and exit with status 1.
\<close>

datatype outcome =
    PrintInventory inventory
  | PrintHostVars dict
  | PrintHelp
  | ExitError py_error

definition main :: "extern \<Rightarrow> args \<Rightarrow> proc \<Rightarrow> outcome \<times> proc" where
  "main X a p =
     (if arg_list a then
        (if arg_source a = Terraform then
           (case generate_inventory X (arg_env a) init_inventory p of
              (Inl e, p') \<Rightarrow> (ExitError e, p')
            | (Inr doc, p') \<Rightarrow> (PrintInventory doc, p'))
         else
           (case ec2_generate_inventory X (arg_region a) init_inventory p of
              (doc, p') \<Rightarrow> (PrintInventory doc, p')))
      else if truthy_str (arg_host a) then
        (if arg_source a = Terraform then
           (case generate_inventory X None init_inventory p of
              (Inl e, p') \<Rightarrow> (ExitError e, p')
            | (Inr doc, p') \<Rightarrow> (PrintHostVars (get_host_vars doc (the (arg_host a))), p'))
         else
           (case ec2_generate_inventory X (arg_region a) init_inventory p of
              (doc, p') \<Rightarrow> (PrintHostVars (get_host_vars doc (the (arg_host a))), p')))
      else (PrintHelp, p))"

section \<open>Predicates of the properties\<close>


text \<open>
  Outputs as the tool prints them: an object whose entries are objects (with the keys
  \<^verbatim>\<open>sensitive\<close>, \<^verbatim>\<open>type\<close> and \<^verbatim>\<open>value\<close>).
\<close>

fun is_dict :: "json \<Rightarrow> bool" where
  "is_dict (JObj kvs) = True"
| "is_dict _ = False"

definition well_formed_outputs :: "json \<Rightarrow> bool" where
  "well_formed_outputs outputs =
     (case outputs of JObj kvs \<Rightarrow> list_all (\<lambda>(name, entry). is_dict entry) kvs | _ \<Rightarrow> False)"

text \<open>The outputs include a public address: \<^verbatim>\<open>public_ip\<close> is read without error and is true.\<close>

definition has_public_ip :: "json \<Rightarrow> bool" where
  "has_public_ip outputs =
     (case output_value outputs ''public_ip'' of Inl _ \<Rightarrow> False | Inr v \<Rightarrow> truthy v)"

text \<open>The instance record has a public address (the key is there and not empty).\<close>

definition ec2_has_public_ip :: "ec2_instance \<Rightarrow> bool" where
  "ec2_has_public_ip i = truthy_str (PublicIpAddress i)"

text \<open>The instances that the fallback query of the state-backed generator returns.\<close>

definition cloud_instances :: "extern \<Rightarrow> ec2_instance list" where
  "cloud_instances X =
     (case describe_instances X (fallback_query ''ap-southeast-1'') of
        Inl _ \<Rightarrow> []
      | Inr reservations \<Rightarrow> concat reservations)"

text \<open>The group \<^verbatim>\<open>all\<close> as \<^verbatim>\<open>_add_host_to_inventory\<close> creates it: variables, no host list.\<close>

definition all_group :: group where
  "all_group = \<lparr>hosts = None, vars = Some all_vars\<rparr>"

text \<open>What the documents before and after steps of the loop have in common.\<close>

definition grows :: "inventory \<Rightarrow> inventory \<Rightarrow> bool" where
  "grows d d' =
     ((\<forall>g h. member_of_group d g h \<longrightarrow> member_of_group d' g h) \<and>
      (\<forall>k. map_of (hostvars d) k \<noteq> None \<longrightarrow> map_of (hostvars d') k \<noteq> None) \<and>
      (distinct (map fst (hostvars d)) \<longrightarrow> distinct (map fst (hostvars d'))) \<and>
      (map_of (groups d) ''all'' \<noteq> None \<longrightarrow> map_of (groups d') ''all'' \<noteq> None))"

section \<open>Example inputs\<close>

definition home :: proc where
  "home = \<lparr>cwd = ''/home/user'', api_log = []\<rparr>"





text \<open>No state directory for any environment: only the cloud API answers.\<close>

definition no_state_tool :: "string \<Rightarrow> string list \<Rightarrow> invocation" where
  "no_state_tool dir command =
     \<lparr>dir_exists = False, getcwd_ok = True, chdir_ok = True, run_result = Completed [],
      restore_ok = True, final_restore_ok = True\<rparr>"

definition cloud_only :: "ec2_instance list list \<Rightarrow> extern" where
  "cloud_only reservations =
     \<lparr>project_root = ''/srv/iac'', tool = no_state_tool,
      describe_instances = (\<lambda>q. Inr reservations), loads = (\<lambda>s. None),
      str_of = (\<lambda>j. ''None'')\<rparr>"

definition inst_dev :: ec2_instance where
  "inst_dev =
     \<lparr>KeyName = Some ''iac-demo-key'',
      Tags = Some [(''Project'', ''iac-multi-environment''), (''Environment'', ''dev''),
                   (''Name'', ''web'')],
      PublicIpAddress = Some ''1.2.3.4'', PrivateIpAddress = Some ''10.0.1.10'',
      InstanceId = Some ''i-0a1'', InstanceType = Some ''t3.micro'',
      Placement = Some \<lparr>AvailabilityZone = Some ''ap-southeast-1a''\<rparr>\<rparr>"

definition inst_dev_b :: ec2_instance where
  "inst_dev_b = inst_dev\<lparr>PublicIpAddress := Some ''5.6.7.8'', InstanceId := Some ''i-0b2''\<rparr>"

definition inst_private :: ec2_instance where
  "inst_private = inst_dev\<lparr>PublicIpAddress := None, InstanceId := Some ''i-0c3''\<rparr>"

definition inst_meta :: ec2_instance where
  "inst_meta = inst_dev\<lparr>Tags := Some [(''Environment'', ''_meta''), (''Name'', ''web'')]\<rparr>"

text \<open>
  State for \<^verbatim>\<open>dev\<close> and \<^verbatim>\<open>staging\<close> with the public addresses 1.2.3.4 and 5.6.7.8, no
  directory for \<^verbatim>\<open>prod\<close>. \<open>example_loads\<close> is \<^verbatim>\<open>json.loads\<close> on the texts of the examples,
  \<open>example_str\<close> is \<^verbatim>\<open>str\<close> on a string and on \<^verbatim>\<open>None\<close>.
\<close>

definition ok_run :: "string \<Rightarrow> invocation" where
  "ok_run out =
     \<lparr>dir_exists = True, getcwd_ok = True, chdir_ok = True, run_result = Completed out,
      restore_ok = True, final_restore_ok = True\<rparr>"

definition state_text :: string where
  "state_text = ''{\"values\": {\"root_module\": {}}}''"

definition dev_outputs_text :: string where
  "dev_outputs_text = ''{\"public_ip\": {\"value\": \"1.2.3.4\"}}''"

definition staging_outputs_text :: string where
  "staging_outputs_text = ''{\"public_ip\": {\"value\": \"5.6.7.8\"}}''"

definition private_outputs_text :: string where
  "private_outputs_text = ''{\"private_ip\": {\"value\": \"10.0.1.10\"}}''"

definition example_loads :: "string \<Rightarrow> json option" where
  "example_loads s =
     (if s = state_text then Some (JObj [(''values'', JObj [(''root_module'', JObj [])])])
      else if s = dev_outputs_text
        then Some (JObj [(''public_ip'', JObj [(''value'', JStr ''1.2.3.4'')])])
      else if s = staging_outputs_text
        then Some (JObj [(''public_ip'', JObj [(''value'', JStr ''5.6.7.8'')])])
      else if s = private_outputs_text
        then Some (JObj [(''private_ip'', JObj [(''value'', JStr ''10.0.1.10'')])])
      else None)"

definition example_str :: "json \<Rightarrow> string" where
  "example_str j = (case j of JStr s \<Rightarrow> s | _ \<Rightarrow> ''None'')"

definition two_envs_tool :: "string \<Rightarrow> string list \<Rightarrow> invocation" where
  "two_envs_tool dir command =
     (if dir = ''/srv/iac/terraform/environments/dev''
        then ok_run (if command = [''terraform'', ''show'', ''-json''] then state_text
                     else dev_outputs_text)
      else if dir = ''/srv/iac/terraform/environments/staging''
        then ok_run (if command = [''terraform'', ''show'', ''-json''] then state_text
                     else staging_outputs_text)
      else no_state_tool dir command)"

definition world_two_envs :: extern where
  "world_two_envs =
     \<lparr>project_root = ''/srv/iac'', tool = two_envs_tool,
      describe_instances = (\<lambda>q. Inr [[inst_dev]]), loads = example_loads,
      str_of = example_str\<rparr>"

definition tf_host_info :: "string \<Rightarrow> string \<Rightarrow> dict" where
  "tf_host_info env_name address =
     [(''ansible_host'', JStr address),
      (''ansible_user'', JStr ''ubuntu''),
      (''ansible_ssh_private_key_file'', JStr ''~/.ssh/None.pem''),
      (''environment'', JStr env_name),
      (''private_ip'', JNull),
      (''instance_id'', JNull),
      (''key_name'', JNull),
      (''ansible_ssh_common_args'', JStr ssh_common_args)]"

text \<open>The document of the state-backed generator for the two environments.\<close>

definition doc_two_envs :: inventory where
  "doc_two_envs =
     \<lparr>hostvars =
        [(''dev-web-server'', tf_host_info ''dev'' ''1.2.3.4''),
         (''staging-web-server'', tf_host_info ''staging'' ''5.6.7.8'')],
      groups =
        [(''web_servers'',
            \<lparr>hosts = Some [''dev-web-server'', ''staging-web-server''], vars = Some []\<rparr>),
         (''dev'',
            \<lparr>hosts = Some [''dev-web-server''], vars = Some [(''environment'', JStr ''dev'')]\<rparr>),
         (''all'', \<lparr>hosts = None, vars = Some all_vars\<rparr>),
         (''staging'',
            \<lparr>hosts = Some [''staging-web-server''],
             vars = Some [(''environment'', JStr ''staging'')]\<rparr>)]\<rparr>"

text \<open>State for \<^verbatim>\<open>dev\<close> whose outputs have no public address.\<close>

definition private_tool :: "string \<Rightarrow> string list \<Rightarrow> invocation" where
  "private_tool dir command =
     (if dir = ''/srv/iac/terraform/environments/dev''
        then ok_run (if command = [''terraform'', ''show'', ''-json''] then state_text
                     else private_outputs_text)
      else no_state_tool dir command)"

definition world_private :: extern where
  "world_private =
     \<lparr>project_root = ''/srv/iac'', tool = private_tool,
      describe_instances = (\<lambda>q. Inr [[inst_private, inst_dev]]), loads = example_loads,
      str_of = example_str\<rparr>"

definition inst_staging :: ec2_instance where
  "inst_staging =
     inst_dev\<lparr>Tags := Some [(''Environment'', ''staging''), (''Name'', ''web'')],
              PublicIpAddress := Some ''5.6.7.8'', InstanceId := Some ''i-0d4''\<rparr>"

text \<open>The tool prints a JSON array where the state is expected.\<close>

definition list_state_text :: string where
  "list_state_text = ''[1]''"

definition bad_state_tool :: "string \<Rightarrow> string list \<Rightarrow> invocation" where
  "bad_state_tool dir command = ok_run list_state_text"

definition world_bad_state :: extern where
  "world_bad_state =
     \<lparr>project_root = ''/srv/iac'', tool = bad_state_tool,
      describe_instances = (\<lambda>q. Inr [[inst_dev]]),
      loads = (\<lambda>s. if s = list_state_text then Some (JArr [JInt 1]) else None),
      str_of = example_str\<rparr>"

definition list_args :: args where
  "list_args =
     \<lparr>arg_list = True, arg_host = None, arg_env = None, arg_source = Terraform,
      arg_region = ''us-east-1'', arg_verbose = False\<rparr>"

definition host_args :: args where
  "host_args =
     \<lparr>arg_list = False, arg_host = Some ''prod-web-server'', arg_env = None,
      arg_source = Terraform, arg_region = ''ap-southeast-1'', arg_verbose = False\<rparr>"

section \<open>The working directory around the external tool\<close>

lemma run_terraform_command_api_log:
  "api_log (snd (run_terraform_command X env command p)) = api_log p"
  by (simp add: run_terraform_command_def finally_chdir_def Let_def
           split: run_result.splits option.splits)

lemma run_terraform_command_result:
  "fst (run_terraform_command X env command p) = fst (run_terraform_command X env command q)"
  by (simp add: run_terraform_command_def finally_chdir_def Let_def
           split: run_result.splits option.splits)




section \<open>Documents and groups\<close>

lemma hosts_of_set_hostvars [simp]: "hosts_of (set_hostvars doc h v) n = hosts_of doc n"
  by (simp add: hosts_of_def set_hostvars_def)

lemma has_key_set_hostvars [simp]: "has_key (set_hostvars doc h v) n = has_key doc n"
  by (simp add: has_key_def set_hostvars_def)

lemma hostvars_set_group [simp]: "hostvars (set_group doc n g) = hostvars doc"
  by (simp add: set_group_def)

lemma groups_set_hostvars [simp]: "groups (set_hostvars doc h v) = groups doc"
  by (simp add: set_hostvars_def)

lemma map_of_set_group [simp]:
  "map_of (groups (set_group doc n g)) n' = (if n' = n then Some g else map_of (groups doc) n')"
  by (simp add: set_group_def update_conv')

lemma has_key_set_group [simp]: "has_key (set_group doc n g) n' = (n' = n \<or> has_key doc n')"
  by (auto simp: has_key_def)

lemma hosts_of_set_group:
  "hosts_of (set_group doc n g) n' =
     (if n' = n \<and> n \<noteq> ''_meta'' then (case hosts g of None \<Rightarrow> Inl KeyError | Some hs \<Rightarrow> Inr hs)
      else hosts_of doc n')"
  by (simp add: hosts_of_def)

lemma hosts_of_Inr_has_key: "hosts_of doc n = Inr hs \<Longrightarrow> has_key doc n"
  by (auto simp: hosts_of_def has_key_def split: if_splits option.splits)

lemma append_host_Inr:
  "append_host doc n h = Inr doc' \<longleftrightarrow>
     (\<exists>g hs. n \<noteq> ''_meta'' \<and> map_of (groups doc) n = Some g \<and> hosts g = Some hs \<and>
        doc' = set_group doc n (g\<lparr>hosts := Some (hs @ [h])\<rparr>))"
  by (auto simp: append_host_def split: option.splits)

lemma append_host_hosts_of:
  "append_host doc n h = (case hosts_of doc n of Inl e \<Rightarrow> Inl e
      | Inr hs \<Rightarrow> Inr (set_group doc n ((the (map_of (groups doc) n))\<lparr>hosts := Some (hs @ [h])\<rparr>)))"
  by (auto simp: append_host_def hosts_of_def split: option.splits)

lemma hosts_of_append_host:
  "append_host doc n h = Inr doc' \<Longrightarrow>
   hosts_of doc' n' = (if n' = n then (case hosts_of doc n of Inl e \<Rightarrow> Inl e | Inr hs \<Rightarrow> Inr (hs @ [h])) else hosts_of doc n')"
  by (auto simp: append_host_Inr hosts_of_def)

lemma hostvars_append_host: "append_host doc n h = Inr doc' \<Longrightarrow> hostvars doc' = hostvars doc"
  by (auto simp: append_host_Inr)

text \<open>
  Insertion into a group by the API-backed generator: a host that is already listed
  leaves the document as it is.
\<close>

lemma add_to_group_present:
  "member_of_group doc g h \<Longrightarrow> add_to_group doc g h = Inr doc"
  by (auto simp: member_of_group_def add_to_group_def Let_def hosts_of_Inr_has_key split: sum.splits)

lemma hostvars_add_to_group: "add_to_group doc g h = Inr doc' \<Longrightarrow> hostvars doc' = hostvars doc"
  by (auto simp: add_to_group_def Let_def hostvars_append_host split: sum.splits if_splits)

lemma hosts_of_add_to_group_other:
  "add_to_group doc g h = Inr doc' \<Longrightarrow> g' \<noteq> g \<Longrightarrow> hosts_of doc' g' = hosts_of doc g'"
  by (auto simp: add_to_group_def Let_def hosts_of_append_host hosts_of_set_group split: sum.splits if_splits)

lemma hosts_of_add_to_group_same:
  "add_to_group doc g h = Inr doc' \<Longrightarrow>
   hosts_of doc' g = Inr (case hosts_of doc g of Inl _ \<Rightarrow> [h] | Inr hs \<Rightarrow> if h \<in> set hs then hs else hs @ [h])"
  by (auto simp: add_to_group_def Let_def hosts_of_append_host hosts_of_set_group 
        dest: hosts_of_Inr_has_key split: sum.splits if_splits option.splits)

lemma member_add_to_group: "add_to_group doc g h = Inr doc' \<Longrightarrow> member_of_group doc' g h"
  by (auto simp: member_of_group_def hosts_of_add_to_group_same split: sum.splits)

lemma member_add_to_group_mono:
  "add_to_group doc g h = Inr doc' \<Longrightarrow> member_of_group doc g' h' \<Longrightarrow> member_of_group doc' g' h'"
  by (cases "g' = g") (auto simp: member_of_group_def hosts_of_add_to_group_same hosts_of_add_to_group_other split: sum.splits)

lemma set_hostvars_idem: "map_of (hostvars doc) h = Some v \<Longrightarrow> set_hostvars doc h v = doc"
  by (simp add: set_hostvars_def update_triv)

lemma map_of_set_hostvars [simp]: "map_of (hostvars (set_hostvars doc h v)) h' = (if h' = h then Some v else map_of (hostvars doc) h')"
  by (simp add: set_hostvars_def update_conv')

lemma process_body_idem: "process_body (fst (process_body doc i)) i = process_body doc i"
proof (cases "truthy_str (map_of (tag_dict i) ''Environment'') \<and> truthy_str (PublicIpAddress i)")
  case False
  then show ?thesis by (auto simp: process_body_def Let_def)
next
  case True
  let ?h = "ec2_hostname i"
  let ?e = "the (map_of (tag_dict i) ''Environment'')"
  define d1 where "d1 = set_hostvars doc ?h (ec2_host_vars i)"
  have hv: "\<And>d. hostvars d = hostvars d1 \<Longrightarrow> set_hostvars d ?h (ec2_host_vars i) = d"
    by (rule set_hostvars_idem) (simp add: d1_def)
  have unf: "\<And>d. process_body d i =
     (let doc1 = set_hostvars d ?h (ec2_host_vars i) in
          (case add_to_group doc1 ''all'' ?h of
             Inl e \<Rightarrow> (doc1, Raised e)
           | Inr doc2 \<Rightarrow>
          (case add_to_group doc2 ''web_servers'' ?h of
             Inl e \<Rightarrow> (doc2, Raised e)
           | Inr doc3 \<Rightarrow>
          (case add_to_group doc3 ?e ?h of
             Inl e \<Rightarrow> (doc3, Raised e)
           | Inr doc4 \<Rightarrow>
          (case add_to_group doc4 (type_group i) ?h of
             Inl e \<Rightarrow> (doc4, Raised e)
           | Inr doc5 \<Rightarrow> (doc5, Inserted))))))"
    using True by (simp add: process_body_def Let_def)
  show ?thesis
  proof (cases "add_to_group d1 ''all'' ?h")
    case (Inl x)
    then show ?thesis using hv[of d1] by (simp add: unf d1_def[symmetric])
  next
    case a1: (Inr d2)
    have m1: "member_of_group d2 ''all'' ?h" using a1 by (rule member_add_to_group)
    have h2: "hostvars d2 = hostvars d1" using a1 by (rule hostvars_add_to_group)
    show ?thesis
    proof (cases "add_to_group d2 ''web_servers'' ?h")
      case (Inl x)
      then show ?thesis using hv[OF h2] a1 add_to_group_present[OF m1]
        by (simp add: unf d1_def[symmetric])
    next
      case a2: (Inr d3)
      have m2: "member_of_group d3 ''web_servers'' ?h" "member_of_group d3 ''all'' ?h" 
        using a2 m1 by (auto intro: member_add_to_group member_add_to_group_mono)
      have h3: "hostvars d3 = hostvars d1" using a2 h2 by (simp add: hostvars_add_to_group)
      show ?thesis
      proof (cases "add_to_group d3 ?e ?h")
        case (Inl x)
        then show ?thesis using hv[OF h3] a1 a2 m2 
          by (simp add: unf d1_def[symmetric] add_to_group_present)
      next
        case a3: (Inr d4)
        have m3: "member_of_group d4 ?e ?h" "member_of_group d4 ''web_servers'' ?h" "member_of_group d4 ''all'' ?h" 
          using a3 m2 by (auto intro: member_add_to_group member_add_to_group_mono)
        have h4: "hostvars d4 = hostvars d1" using a3 h3 by (simp add: hostvars_add_to_group)
        show ?thesis
        proof (cases "add_to_group d4 (type_group i) ?h")
          case (Inl x)
          then show ?thesis using hv[OF h4] a1 a2 a3 m3 
            by (simp add: unf d1_def[symmetric] add_to_group_present)
        next
          case a4: (Inr d5)
          have m4: "member_of_group d5 (type_group i) ?h" "member_of_group d5 ?e ?h" "member_of_group d5 ''web_servers'' ?h" "member_of_group d5 ''all'' ?h" 
            using a4 m3 by (auto intro: member_add_to_group member_add_to_group_mono)
          have h5: "hostvars d5 = hostvars d1" using a4 h4 by (simp add: hostvars_add_to_group)
          show ?thesis using hv[OF h5] a1 a2 a3 a4 m4
            by (simp add: unf d1_def[symmetric] add_to_group_present)
        qed
      qed
    qed
  qed
qed

lemma set_update_subset: "set (AList.update k v al) \<subseteq> insert (k, v) (set al)"
  by (induction al) auto

lemma groups_have_hosts_set_group:
  "groups_have_hosts doc \<Longrightarrow> hosts g \<noteq> None \<Longrightarrow> groups_have_hosts (set_group doc n g)"
  using set_update_subset[of n g "groups doc"]
  by (auto simp: groups_have_hosts_def set_group_def list_all_iff)

lemma no_duplicates_set_group:
  "no_duplicates doc \<Longrightarrow> (\<And>hs. hosts g = Some hs \<Longrightarrow> distinct hs) \<Longrightarrow> no_duplicates (set_group doc n g)"
  using set_update_subset[of n g "groups doc"]
  by (auto simp: no_duplicates_def set_group_def list_all_iff split: option.splits)

lemma no_duplicates_map_of:
  "no_duplicates doc \<Longrightarrow> map_of (groups doc) n = Some g \<Longrightarrow> hosts g = Some hs \<Longrightarrow> distinct hs"
  by (auto simp: no_duplicates_def list_all_iff dest!: map_of_SomeD)

lemma add_to_group_cases:
  "add_to_group doc g h =
     (if g = ''_meta'' then Inl KeyError
      else case map_of (groups doc) g of
        None \<Rightarrow> Inr (set_group doc g \<lparr>hosts = Some [h], vars = None\<rparr>)
      | Some grp \<Rightarrow>
          (case hosts grp of None \<Rightarrow> Inl KeyError
           | Some hs \<Rightarrow> if h \<in> set hs then Inr doc
                        else Inr (set_group doc g (grp\<lparr>hosts := Some (hs @ [h])\<rparr>))))"
  by (auto simp: add_to_group_def Let_def has_key_def hosts_of_def append_host_def set_group_def
        update_conv' split: option.splits)

lemma add_to_group_succeeds:
  "groups_have_hosts doc \<Longrightarrow> g \<noteq> ''_meta'' \<Longrightarrow> \<exists>doc'. add_to_group doc g h = Inr doc'"
  by (auto simp: add_to_group_cases groups_have_hosts_def list_all_iff split: option.splits
           dest!: map_of_SomeD)

lemma groups_have_hosts_add_to_group:
  "groups_have_hosts doc \<Longrightarrow> add_to_group doc g h = Inr doc' \<Longrightarrow> groups_have_hosts doc'"
  by (auto simp: add_to_group_cases groups_have_hosts_set_group split: option.splits if_splits)

lemma no_duplicates_add_to_group:
  assumes nd: "no_duplicates doc" and a: "add_to_group doc g h = Inr doc'"
  shows "no_duplicates doc'"
proof (cases "map_of (groups doc) g")
  case None
  with nd a show ?thesis
    by (auto simp: add_to_group_cases split: if_splits intro!: no_duplicates_set_group)
next
  case (Some grp)
  show ?thesis
  proof (cases "hosts grp")
    case None
    with Some a show ?thesis by (simp add: add_to_group_cases split: if_splits)
  next
    case hs: (Some hs)
    have "distinct hs" using nd Some hs by (rule no_duplicates_map_of)
    with Some hs a nd show ?thesis
      by (auto simp: add_to_group_cases split: if_splits intro!: no_duplicates_set_group)
  qed
qed

lemma no_duplicates_set_hostvars [simp]: "no_duplicates (set_hostvars doc h v) = no_duplicates doc"
  by (simp add: no_duplicates_def)

lemma groups_have_hosts_set_hostvars [simp]:
  "groups_have_hosts (set_hostvars doc h v) = groups_have_hosts doc"
  by (simp add: groups_have_hosts_def)

lemma member_set_hostvars [simp]:
  "member_of_group (set_hostvars doc h v) g h' = member_of_group doc g h'"
  by (simp add: member_of_group_def)

text \<open>
  How the body of \<^verbatim>\<open>_process_instance\<close> can end, and what each ending leaves in the
  document.
\<close>

lemma process_body_cases:
  obtains
    (skipped) "process_body doc i = (doc, Skipped)"
      "\<not> (truthy_str (map_of (tag_dict i) ''Environment'') \<and> truthy_str (PublicIpAddress i))"
  | (raised) doc' e where "process_body doc i = (doc', Raised e)"
      "truthy_str (map_of (tag_dict i) ''Environment'')" "truthy_str (PublicIpAddress i)"
      "hostvars doc' = AList.update (ec2_hostname i) (ec2_host_vars i) (hostvars doc)"
      "no_duplicates doc \<Longrightarrow> no_duplicates doc'"
      "groups_have_hosts doc \<Longrightarrow> map_of (tag_dict i) ''Environment'' = Some ''_meta''"
      "groups_have_hosts doc \<Longrightarrow> groups_have_hosts doc'"
      "\<And>g h. member_of_group doc g h \<Longrightarrow> member_of_group doc' g h"
  | (inserted) doc' where "process_body doc i = (doc', Inserted)"
      "truthy_str (map_of (tag_dict i) ''Environment'')" "truthy_str (PublicIpAddress i)"
      "hostvars doc' = AList.update (ec2_hostname i) (ec2_host_vars i) (hostvars doc)"
      "no_duplicates doc \<Longrightarrow> no_duplicates doc'"
      "groups_have_hosts doc \<Longrightarrow> groups_have_hosts doc'"
      "\<And>g h. member_of_group doc g h \<Longrightarrow> member_of_group doc' g h"
      "member_of_group doc' ''all'' (ec2_hostname i)"
      "member_of_group doc' ''web_servers'' (ec2_hostname i)"
      "member_of_group doc' (the (map_of (tag_dict i) ''Environment'')) (ec2_hostname i)"
      "member_of_group doc' (type_group i) (ec2_hostname i)"
proof (cases "truthy_str (map_of (tag_dict i) ''Environment'') \<and> truthy_str (PublicIpAddress i)")
  case False
  then show ?thesis by (intro skipped) (auto simp: process_body_def Let_def)
next
  case True
  let ?h = "ec2_hostname i"
  let ?e = "the (map_of (tag_dict i) ''Environment'')"
  define d1 where "d1 = set_hostvars doc ?h (ec2_host_vars i)"
  have unf: "process_body doc i =
          (case add_to_group d1 ''all'' ?h of
             Inl e \<Rightarrow> (d1, Raised e)
           | Inr doc2 \<Rightarrow>
          (case add_to_group doc2 ''web_servers'' ?h of
             Inl e \<Rightarrow> (doc2, Raised e)
           | Inr doc3 \<Rightarrow>
          (case add_to_group doc3 ?e ?h of
             Inl e \<Rightarrow> (doc3, Raised e)
           | Inr doc4 \<Rightarrow>
          (case add_to_group doc4 (type_group i) ?h of
             Inl e \<Rightarrow> (doc4, Raised e)
           | Inr doc5 \<Rightarrow> (doc5, Inserted)))))"
    unfolding process_body_def Let_def d1_def using True by simp
  have hv1: "hostvars d1 = AList.update ?h (ec2_host_vars i) (hostvars doc)"
    by (simp add: d1_def set_hostvars_def)
  have nd1: "no_duplicates doc \<Longrightarrow> no_duplicates d1" by (simp add: d1_def)
  have gh1: "groups_have_hosts doc \<Longrightarrow> groups_have_hosts d1" by (simp add: d1_def)
  have mm1: "\<And>g h. member_of_group doc g h \<Longrightarrow> member_of_group d1 g h" by (simp add: d1_def)
  have tg: "type_group i \<noteq> ''_meta''" by (simp add: type_group_def)
  show ?thesis
  proof (cases "add_to_group d1 ''all'' ?h")
    case (Inl x)
    have "\<not> groups_have_hosts doc" using add_to_group_succeeds[of d1 "''all''" ?h] Inl gh1 by auto
    then show ?thesis using Inl True hv1 nd1 gh1 mm1 by (intro raised[of d1 x]) (auto simp: unf)
  next
    case a1: (Inr d2)
    note p2 = hostvars_add_to_group[OF a1] no_duplicates_add_to_group[OF _ a1]
      groups_have_hosts_add_to_group[OF _ a1] member_add_to_group_mono[OF a1]
    show ?thesis
    proof (cases "add_to_group d2 ''web_servers'' ?h")
      case (Inl x)
      have "\<not> groups_have_hosts doc"
        using add_to_group_succeeds[of d2 "''web_servers''" ?h] Inl gh1 p2(3) by auto
      then show ?thesis using Inl a1 True hv1 nd1 gh1 mm1 p2
        by (intro raised[of d2 x]) (auto simp: unf)
    next
      case a2: (Inr d3)
      note p3 = hostvars_add_to_group[OF a2] no_duplicates_add_to_group[OF _ a2]
        groups_have_hosts_add_to_group[OF _ a2] member_add_to_group_mono[OF a2]
      show ?thesis
      proof (cases "add_to_group d3 ?e ?h")
        case (Inl x)
        have "groups_have_hosts doc \<Longrightarrow> ?e = ''_meta''"
          using add_to_group_succeeds[of d3 ?e ?h] Inl gh1 p2(3) p3(3) by auto
        then have "groups_have_hosts doc \<Longrightarrow> map_of (tag_dict i) ''Environment'' = Some ''_meta''"
          using True by (cases "map_of (tag_dict i) ''Environment''") auto
        then show ?thesis using Inl a1 a2 True hv1 nd1 gh1 mm1 p2 p3
          by (intro raised[of d3 x]) (auto simp: unf)
      next
        case a3: (Inr d4)
        note p4 = hostvars_add_to_group[OF a3] no_duplicates_add_to_group[OF _ a3]
          groups_have_hosts_add_to_group[OF _ a3] member_add_to_group_mono[OF a3]
        show ?thesis
        proof (cases "add_to_group d4 (type_group i) ?h")
          case (Inl x)
          have "\<not> groups_have_hosts doc"
            using add_to_group_succeeds[of d4 "type_group i" ?h] Inl gh1 p2(3) p3(3) p4(3) tg by auto
          then show ?thesis using Inl a1 a2 a3 True hv1 nd1 gh1 mm1 p2 p3 p4
            by (intro raised[of d4 x]) (auto simp: unf)
        next
          case a4: (Inr d5)
          note p5 = hostvars_add_to_group[OF a4] no_duplicates_add_to_group[OF _ a4]
            groups_have_hosts_add_to_group[OF _ a4] member_add_to_group_mono[OF a4]
          have m: "member_of_group d5 ''all'' ?h" "member_of_group d5 ''web_servers'' ?h"
            "member_of_group d5 ?e ?h" "member_of_group d5 (type_group i) ?h"
            using member_add_to_group[OF a1] member_add_to_group[OF a2] 
              member_add_to_group[OF a3] member_add_to_group[OF a4] p3(4) p4(4) p5(4) by auto
          show ?thesis using a1 a2 a3 a4 True hv1 nd1 gh1 mm1 p2 p3 p4 p5 m
            by (intro inserted[of d5]) (auto simp: unf)
        qed
      qed
    qed
  qed
qed

section \<open>The API-backed generator: groups, errors, instance types\<close>

lemmas ex_defs = inst_dev_def inst_dev_b_def inst_private_def inst_meta_def cloud_only_def no_state_tool_def
   home_def init_inventory_def
lemmas ec2_defs = process_instance_def process_body_def tag_dict_def tags_of_def Let_def ec2_hostname_def
   add_to_group_cases set_hostvars_def set_group_def type_group_def key_name_of_def ec2_host_vars_def
   member_of_group_def hosts_of_def

lemma replace_dots_map: "replace_dots s = map (\<lambda>c. if c = CHR ''.'' then CHR ''_'' else c) s"
  by (induction s) auto

lemma foldl_reservations:
  "foldl (\<lambda>doc0 reservation. foldl process_instance doc0 reservation) doc rs =
   foldl process_instance doc (concat rs)"
  by (induction rs arbitrary: doc) auto

lemma ec2_generate_inventory_fst:
  "fst (ec2_generate_inventory X r doc p) =
     (case describe_instances X (ec2_query r) of
        Inl _ \<Rightarrow> doc
      | Inr rs \<Rightarrow> foldl process_instance doc (concat rs))"
  by (simp add: ec2_generate_inventory_def Let_def foldl_reservations split: sum.splits)

lemma process_instance_invariants:
  "(groups_have_hosts doc \<longrightarrow> groups_have_hosts (process_instance doc i)) \<and>
   (no_duplicates doc \<longrightarrow> no_duplicates (process_instance doc i)) \<and>
   (member_of_group doc g h \<longrightarrow> member_of_group (process_instance doc i) g h) \<and>
   (map_of (hostvars doc) h \<noteq> None \<longrightarrow> map_of (hostvars (process_instance doc i)) h \<noteq> None)"
  by (cases doc i rule: process_body_cases) (auto simp: process_instance_def update_conv')

lemma foldl_process_invariants:
  "(groups_have_hosts doc \<longrightarrow> groups_have_hosts (foldl process_instance doc insts)) \<and>
   (no_duplicates doc \<longrightarrow> no_duplicates (foldl process_instance doc insts)) \<and>
   (member_of_group doc g h \<longrightarrow> member_of_group (foldl process_instance doc insts) g h) \<and>
   (map_of (hostvars doc) h \<noteq> None \<longrightarrow> map_of (hostvars (foldl process_instance doc insts)) h \<noteq> None)"
proof (induction insts arbitrary: doc)
  case Nil
  show ?case by simp
next
  case (Cons i insts)
  show ?case using Cons[of "process_instance doc i"] process_instance_invariants[of doc i g h]
    by simp
qed




text \<open>
  Claim C7: in the API-backed generator, adding a hostname to a group that already lists
  it leaves the document unchanged, and processing the same instance a second time
  gives the same document, hence the same group lists, as processing it once.
\<close>

theorem add_to_group_idempotent:
  "(member_of_group doc g h \<longrightarrow> add_to_group doc g h = Inr doc) \<and>
   process_instance (process_instance doc i) i = process_instance doc i \<and>
   groups (process_instance (process_instance doc i) i) = groups (process_instance doc i)"
  using process_body_idem[of doc i] by (simp add: add_to_group_present process_instance_def)

theorem add_to_group_idempotent_witness:
  "member_of_group (process_instance init_inventory inst_dev) ''web_servers'' ''dev-web'' \<and>
   add_to_group (process_instance init_inventory inst_dev) ''web_servers'' ''dev-web'' =
     Inr (process_instance init_inventory inst_dev) \<and>
   hosts_of (process_instance (process_instance init_inventory inst_dev) inst_dev) ''web_servers'' =
     Inr [''dev-web'']"
proof -
  have m: "member_of_group (process_instance init_inventory inst_dev) ''web_servers'' ''dev-web''"
    by (simp add: ex_defs ec2_defs)
  have h: "hosts_of (process_instance init_inventory inst_dev) ''web_servers'' = Inr [''dev-web'']"
    by (simp add: ex_defs ec2_defs)
  show ?thesis
    using add_to_group_idempotent
            [of "process_instance init_inventory inst_dev" "''web_servers''" "''dev-web''" inst_dev]
          add_to_group_idempotent [of init_inventory "''web_servers''" "''dev-web''" inst_dev]
          m h
    by simp
qed


text \<open>
  Claim C9: an instance that the API-backed generator inserts is listed in the group whose
  name is \<^verbatim>\<open>type_\<close> followed by its instance type (\<^verbatim>\<open>unknown\<close> when the record has
  none) with every \<^verbatim>\<open>.\<close> replaced by \<^verbatim>\<open>_\<close>; the type \<^verbatim>\<open>t3.micro\<close> gives the group
  \<^verbatim>\<open>type_t3_micro\<close>.
\<close>

theorem instance_type_group_name:
  "(snd (process_body doc i) = Inserted \<longrightarrow>
      member_of_group (process_instance doc i)
        (''type_'' @ map (\<lambda>c. if c = CHR ''.'' then CHR ''_'' else c)
                        (case InstanceType i of None \<Rightarrow> ''unknown'' | Some t \<Rightarrow> t))
        (ec2_hostname i)) \<and>
   (InstanceType i = Some ''t3.micro'' \<longrightarrow> type_group i = ''type_t3_micro'')"
proof -
  have "snd (process_body doc i) = Inserted \<Longrightarrow>
        member_of_group (process_instance doc i) (type_group i) (ec2_hostname i)"
    by (cases doc i rule: process_body_cases) (auto simp: process_instance_def)
  then show ?thesis by (auto simp: type_group_def replace_dots_map)
qed

theorem instance_type_group_name_witness:
  "snd (process_body init_inventory inst_dev) = Inserted \<and>
   InstanceType inst_dev = Some ''t3.micro'' \<and>
   member_of_group (process_instance init_inventory inst_dev) ''type_t3_micro'' ''dev-web'' \<and>
   type_group inst_dev = ''type_t3_micro''"
proof -
  have a: "snd (process_body init_inventory inst_dev) = Inserted"
    by (simp add: ex_defs ec2_defs)
  have b: "InstanceType inst_dev = Some ''t3.micro''" "ec2_hostname inst_dev = ''dev-web''"
    by (simp_all add: ex_defs ec2_defs)
  show ?thesis using instance_type_group_name [of init_inventory inst_dev] a b by simp
qed








text \<open>The API-backed generator never lists a host twice in a group.\<close>

lemma ec2_generate_inventory_no_duplicates:
  "no_duplicates doc \<Longrightarrow> no_duplicates (fst (ec2_generate_inventory X r doc p))"
  using foldl_process_invariants[of doc]
  by (simp add: ec2_generate_inventory_fst split: sum.splits)

lemma ec2_document_no_duplicates:
  "no_duplicates (fst (ec2_generate_inventory X r init_inventory p))"
  by (rule ec2_generate_inventory_no_duplicates) (simp add: no_duplicates_def init_inventory_def)

section \<open>The state-backed generator: steps without the process state\<close>

lemma check_terraform_state_fst:
  "fst (check_terraform_state X env p) = fst (check_terraform_state X env q)"
  using run_terraform_command_result[of X env "[''terraform'', ''show'', ''-json'']" p q]
  by (auto simp: check_terraform_state_def split: prod.splits sum.splits)

lemma check_terraform_state_api_log:
  "api_log (snd (check_terraform_state X env p)) = api_log p"
  using run_terraform_command_api_log[of X env "[''terraform'', ''show'', ''-json'']" p]
  by (auto simp: check_terraform_state_def split: prod.splits sum.splits)

lemma get_terraform_outputs_fst:
  "fst (get_terraform_outputs X env p) = fst (get_terraform_outputs X env q)"
  unfolding get_terraform_outputs_def by (rule run_terraform_command_result)

lemma get_terraform_outputs_api_log:
  "api_log (snd (get_terraform_outputs X env p)) = api_log p"
  unfolding get_terraform_outputs_def by (rule run_terraform_command_api_log)

text \<open>One iteration, whatever the process state it starts in.\<close>

lemma env_step_fst:
  "fst (env_step X env s p) =
     (case fst (check_terraform_state X env q) of
        Inl e \<Rightarrow> Inl e
      | Inr False \<Rightarrow> Inr s
      | Inr True \<Rightarrow>
          (let outputs = fst (get_terraform_outputs X env q) in
           if truthy outputs then
             (case extract_host_info_from_terraform X env outputs of
                None \<Rightarrow> Inr s
              | Some host_info \<Rightarrow>
                  (case add_host_to_inventory (fst s) env host_info of
                     Inl e \<Rightarrow> Inl e
                   | Inr doc' \<Rightarrow> Inr (doc', Suc (snd s))))
           else Inr s))"
proof -
  obtain r p1 where c: "check_terraform_state X env p = (r, p1)" by (cases "check_terraform_state X env p")
  obtain outs p2 where g: "get_terraform_outputs X env p1 = (outs, p2)"
    by (cases "get_terraform_outputs X env p1")
  have r: "fst (check_terraform_state X env q) = r"
    using check_terraform_state_fst[of X env q p] c by simp
  have o: "fst (get_terraform_outputs X env q) = outs"
    using get_terraform_outputs_fst[of X env q p1] g by simp
  show ?thesis
    by (simp add: env_step_def c g r o Let_def split: sum.splits bool.splits option.splits)
qed

lemma env_step_api_log: "api_log (snd (env_step X env s p)) = api_log p"
proof -
  obtain r p1 where c: "check_terraform_state X env p = (r, p1)" by (cases "check_terraform_state X env p")
  obtain outs p2 where g: "get_terraform_outputs X env p1 = (outs, p2)"
    by (cases "get_terraform_outputs X env p1")
  have "api_log p1 = api_log p" using check_terraform_state_api_log[of X env p] c by simp
  moreover have "api_log p2 = api_log p1" using get_terraform_outputs_api_log[of X env p1] g by simp
  ultimately show ?thesis
    by (simp add: env_step_def c g split: sum.splits bool.splits option.splits)
qed

lemma env_loop_api_log: "api_log (snd (env_loop X envs s p)) = api_log p"
proof (induction envs arbitrary: s p)
  case Nil
  show ?case by simp
next
  case (Cons env envs)
  obtain r p1 where e: "env_step X env s p = (r, p1)" by (cases "env_step X env s p")
  have "api_log p1 = api_log p" using env_step_api_log[of X env s p] e by simp
  then show ?case using Cons[of _ p1] by (simp add: e split: sum.splits)
qed

lemma env_loop_fst: "fst (env_loop X envs s p) = fst (env_loop X envs s q)"
proof (induction envs arbitrary: s p q)
  case Nil
  show ?case by simp
next
  case (Cons env envs)
  obtain r p1 where e: "env_step X env s p = (r, p1)" by (cases "env_step X env s p")
  obtain r' q1 where e': "env_step X env s q = (r', q1)" by (cases "env_step X env s q")
  have "r' = r" using env_step_fst[of X env s p p] env_step_fst[of X env s q p] e e' by simp
  then show ?case using Cons[of _ p1 q1] by (simp add: e e' split: sum.splits)
qed

text \<open>Extraction and the public address.\<close>

lemma extract_terraform_None:
  "\<not> has_public_ip outputs \<Longrightarrow> extract_host_info_from_terraform X env outputs = None"
  by (auto simp: has_public_ip_def extract_host_info_from_terraform_def split: sum.splits)

lemma output_value_well_formed:
  "well_formed_outputs outputs \<Longrightarrow> \<exists>v. output_value outputs name = Inr v"
  by (cases outputs)
     (auto simp: well_formed_outputs_def output_value_def list_all_iff split: option.splits
           dest!: map_of_SomeD elim!: is_dict.elims)

lemma extract_terraform_Some:
  assumes "well_formed_outputs outputs" "has_public_ip outputs"
  shows "truthy outputs \<and> (\<exists>host_info. extract_host_info_from_terraform X env outputs = Some host_info)"
proof -
  have "\<And>name. \<exists>v. output_value outputs name = Inr v"
    using assms(1) by (rule output_value_well_formed)
  then obtain a b c d where v: "output_value outputs ''public_ip'' = Inr a"
    "output_value outputs ''private_ip'' = Inr b" "output_value outputs ''instance_id'' = Inr c"
    "output_value outputs ''key_name'' = Inr d" by metis
  have t: "truthy a" using assms(2) v by (simp add: has_public_ip_def)
  have "truthy outputs"
    using v(1) t by (cases outputs) (auto simp: output_value_def)
  then show ?thesis using v t by (simp add: extract_host_info_from_terraform_def)
qed

lemma extract_ec2_None:
  "\<not> ec2_has_public_ip i \<Longrightarrow> extract_host_info_from_ec2 i = None"
  by (simp add: ec2_has_public_ip_def extract_host_info_from_ec2_def Let_def)

lemma extract_ec2_Some:
  "extract_host_info_from_ec2 i = Some host_info \<Longrightarrow>
   (\<exists>env. map_of (tags_of i) ''Environment'' = Some env \<and> env \<noteq> [] \<and>
          map_of host_info ''environment'' = Some (JStr env)) \<and> ec2_has_public_ip i"
  by (cases "map_of (tags_of i) ''Environment''")
     (auto simp: extract_host_info_from_ec2_def ec2_has_public_ip_def Let_def split: if_splits)

lemma fallback_step_skip:
  "\<not> ec2_has_public_ip i \<Longrightarrow> fallback_step specific_env doc i = Inr doc"
  by (simp add: fallback_step_def extract_ec2_None)

lemma fallback_loop_filter:
  "(\<And>i doc. \<not> P i \<Longrightarrow> fallback_step specific_env doc i = Inr doc) \<Longrightarrow>
   fallback_loop specific_env insts doc = fallback_loop specific_env (filter P insts) doc"
  by (induction insts arbitrary: doc) (auto split: sum.splits)

lemma process_body_skip: "\<not> ec2_has_public_ip i \<Longrightarrow> process_body doc i = (doc, Skipped)"
  by (simp add: process_body_def ec2_has_public_ip_def Let_def)

lemma foldl_process_filter:
  "foldl process_instance doc insts = foldl process_instance doc (filter ec2_has_public_ip insts)"
  by (induction insts arbitrary: doc) (auto simp: process_instance_def process_body_skip)

lemmas tf_world_defs = world_two_envs_def two_envs_tool_def ok_run_def no_state_tool_def
  world_private_def private_tool_def cloud_only_def world_bad_state_def bad_state_tool_def
  list_state_text_def
  example_loads_def example_str_def state_text_def dev_outputs_text_def staging_outputs_text_def
  private_outputs_text_def home_def init_inventory_def

lemmas tf_defs = check_terraform_state_def get_terraform_outputs_def run_terraform_command_def
  terraform_dir_def path_join_def finally_chdir_def Let_def extract_host_info_from_terraform_def
  output_value_def add_host_to_inventory_def has_key_def set_hostvars_def set_group_def
  append_host_def

lemma two_envs_dev_state: "fst (check_terraform_state world_two_envs ''dev'' home) = Inr True"
  by (simp add: tf_world_defs tf_defs)

lemma two_envs_dev_outputs:
  "fst (get_terraform_outputs world_two_envs ''dev'' home) =
     JObj [(''public_ip'', JObj [(''value'', JStr ''1.2.3.4'')])]"
  by (simp add: tf_world_defs tf_defs)


section \<open>Public addresses, the fallback, lookups and the region\<close>

text \<open>
  Claim C4: under both generators a host is added only when a public address is present.
  Outputs without one give no host record and the iteration leaves the document and the
  count as they are; an instance without one gives no record, is a skip of the fallback
  loop and an early return of the API-backed generator; and a whole batch gives the
  document that the batch without those instances gives. None of this raises.
\<close>

theorem no_public_address_no_entry:
  "(\<not> has_public_ip outputs \<longrightarrow> extract_host_info_from_terraform X env outputs = None) \<and>
   (\<not> has_public_ip (fst (get_terraform_outputs X env p)) \<and>
    fst (check_terraform_state X env p) = Inr b \<longrightarrow> fst (env_step X env s p) = Inr s) \<and>
   (\<not> ec2_has_public_ip i \<longrightarrow>
      extract_host_info_from_ec2 i = None \<and> fallback_step specific_env doc i = Inr doc \<and>
      process_body doc i = (doc, Skipped)) \<and>
   fallback_loop specific_env insts doc =
     fallback_loop specific_env (filter ec2_has_public_ip insts) doc \<and>
   foldl process_instance doc insts = foldl process_instance doc (filter ec2_has_public_ip insts)"
proof -
  have "fst (env_step X env s p) = Inr s"
    if "\<not> has_public_ip (fst (get_terraform_outputs X env p))"
      and "fst (check_terraform_state X env p) = Inr b"
    using that by (cases b) (simp_all add: env_step_fst[of X env s p p] extract_terraform_None Let_def)
  moreover have "fallback_loop specific_env insts doc =
     fallback_loop specific_env (filter ec2_has_public_ip insts) doc"
    by (rule fallback_loop_filter) (rule fallback_step_skip)
  ultimately show ?thesis
    using foldl_process_filter[of doc insts]
    by (simp add: extract_terraform_None extract_ec2_None fallback_step_skip process_body_skip)
qed

theorem no_public_address_no_entry_witness:
  "\<not> has_public_ip (fst (get_terraform_outputs world_private ''dev'' home)) \<and>
   fst (check_terraform_state world_private ''dev'' home) = Inr True \<and>
   \<not> ec2_has_public_ip inst_private \<and>
   extract_host_info_from_terraform world_private ''dev''
     (fst (get_terraform_outputs world_private ''dev'' home)) = None \<and>
   fst (env_step world_private ''dev'' (init_inventory, 0) home) = Inr (init_inventory, 0) \<and>
   extract_host_info_from_ec2 inst_private = None \<and>
   fallback_step None init_inventory inst_private = Inr init_inventory \<and>
   process_body init_inventory inst_private = (init_inventory, Skipped) \<and>
   fallback_loop None [inst_private, inst_dev] init_inventory =
     fallback_loop None [inst_dev] init_inventory \<and>
   foldl process_instance init_inventory [inst_private, inst_dev] =
     foldl process_instance init_inventory [inst_dev]"
proof -
  have a: "\<not> has_public_ip (fst (get_terraform_outputs world_private ''dev'' home))"
    by (simp add: has_public_ip_def tf_world_defs tf_defs)
  have b: "fst (check_terraform_state world_private ''dev'' home) = Inr True"
    by (simp add: tf_world_defs tf_defs)
  have c: "\<not> ec2_has_public_ip inst_private" "ec2_has_public_ip inst_dev"
    by (simp_all add: ec2_has_public_ip_def inst_private_def inst_dev_def)
  show ?thesis
    using no_public_address_no_entry
            [of "fst (get_terraform_outputs world_private ''dev'' home)" world_private "''dev''"
                home True "(init_inventory, 0)" inst_private None init_inventory
                "[inst_private, inst_dev]"]
          a b c
    by simp
qed

lemma fallback_step_other_env:
  assumes "truthy_str specific_env" "map_of (tags_of i) ''Environment'' \<noteq> specific_env"
  shows "fallback_step specific_env doc i = Inr doc"
proof (cases "extract_host_info_from_ec2 i")
  case None
  then show ?thesis by (simp add: fallback_step_def)
next
  case (Some host_info)
  then obtain e where "map_of (tags_of i) ''Environment'' = Some e"
    "map_of host_info ''environment'' = Some (JStr e)"
    using extract_ec2_Some by blast
  then show ?thesis using assms Some by (auto simp: fallback_step_def)
qed

lemma get_ec2_instances_from_aws_eq:
  "get_ec2_instances_from_aws X ''ap-southeast-1'' p =
     (cloud_instances X, p\<lparr>api_log := api_log p @ [fallback_query ''ap-southeast-1'']\<rparr>)"
  by (simp add: get_ec2_instances_from_aws_def cloud_instances_def Let_def split: sum.splits)

text \<open>
  Claim C3: the state-backed generator sends its fallback query to the cloud API exactly
  when the loop over the environments ends with \<^verbatim>\<open>hosts_found\<close> zero (and not when the
  loop raises). With a positive count the document of the loop is returned as it is. With
  count zero the result is the fallback loop over the instances of the query, and with an
  environment filter it is the fallback loop over the instances tagged with that
  environment only.
\<close>

theorem fallback_only_without_state_hosts:
  "(fst (env_loop X (environments_of specific_env) (doc, 0) p) = Inr (doc1, n) \<longrightarrow>
      api_log (snd (generate_inventory X specific_env doc p)) =
        api_log p @ (if n = 0 then [fallback_query ''ap-southeast-1''] else [])) \<and>
   (fst (env_loop X (environments_of specific_env) (doc, 0) p) = Inl e \<longrightarrow>
      api_log (snd (generate_inventory X specific_env doc p)) = api_log p \<and>
      fst (generate_inventory X specific_env doc p) = Inl e) \<and>
   (fst (env_loop X (environments_of specific_env) (doc, 0) p) = Inr (doc1, n) \<and> 0 < n \<longrightarrow>
      fst (generate_inventory X specific_env doc p) = Inr doc1) \<and>
   (fst (env_loop X (environments_of specific_env) (doc, 0) p) = Inr (doc1, 0) \<longrightarrow>
      fst (generate_inventory X specific_env doc p) =
        fallback_loop specific_env (cloud_instances X) doc1) \<and>
   (fst (env_loop X (environments_of specific_env) (doc, 0) p) = Inr (doc1, 0) \<and>
    truthy_str specific_env \<longrightarrow>
      fst (generate_inventory X specific_env doc p) =
        fallback_loop specific_env
          (filter (\<lambda>i. map_of (tags_of i) ''Environment'' = specific_env) (cloud_instances X))
          doc1)"
proof -
  obtain r p1 where l: "env_loop X (environments_of specific_env) (doc, 0) p = (r, p1)"
    by (cases "env_loop X (environments_of specific_env) (doc, 0) p")
  have lg: "api_log p1 = api_log p"
    using env_loop_api_log[of X "environments_of specific_env" "(doc, 0)" p] l by simp
  have flt: "truthy_str specific_env \<Longrightarrow>
      fallback_loop specific_env (cloud_instances X) doc1 =
      fallback_loop specific_env
          (filter (\<lambda>i. map_of (tags_of i) ''Environment'' = specific_env) (cloud_instances X))
          doc1"
    by (rule fallback_loop_filter) (rule fallback_step_other_env)
  show ?thesis
    using lg flt
    by (auto simp: generate_inventory_def l get_ec2_instances_from_aws_eq split: sum.splits)
qed


lemma two_envs_loop:
  "fst (env_loop world_two_envs terraform_environments (init_inventory, 0) home) =
     Inr (doc_two_envs, 2)"
  by (simp add: terraform_environments_def env_step_def tf_world_defs tf_defs doc_two_envs_def
        tf_host_info_def)

lemma cloud_only_loop:
  "fst (env_loop (cloud_only rs) envs (doc, n) p) = Inr (doc, n)"
  by (induction envs arbitrary: p)
     (simp_all add: env_step_def check_terraform_state_def run_terraform_command_def
        cloud_only_def no_state_tool_def split: prod.splits sum.splits)

lemma bad_state_loop:
  "fst (env_loop world_bad_state terraform_environments (init_inventory, 0) home) =
     Inl AttributeError"
  by (simp add: terraform_environments_def env_step_def tf_world_defs tf_defs)

theorem fallback_only_without_state_hosts_witness:
  "fst (env_loop world_two_envs (environments_of None) (init_inventory, 0) home) =
     Inr (doc_two_envs, 2) \<and>
   api_log (snd (generate_inventory world_two_envs None init_inventory home)) = [] \<and>
   fst (generate_inventory world_two_envs None init_inventory home) = Inr doc_two_envs \<and>
   fst (env_loop world_bad_state (environments_of None) (init_inventory, 0) home) =
     Inl AttributeError \<and>
   api_log (snd (generate_inventory world_bad_state None init_inventory home)) = [] \<and>
   fst (generate_inventory world_bad_state None init_inventory home) = Inl AttributeError \<and>
   fst (env_loop (cloud_only [[inst_dev, inst_staging]]) (environments_of (Some ''dev''))
          (init_inventory, 0) home) = Inr (init_inventory, 0) \<and>
   truthy_str (Some ''dev'') \<and>
   api_log (snd (generate_inventory (cloud_only [[inst_dev, inst_staging]]) (Some ''dev'')
                   init_inventory home)) = [fallback_query ''ap-southeast-1''] \<and>
   fst (generate_inventory (cloud_only [[inst_dev, inst_staging]]) (Some ''dev'')
          init_inventory home) = fallback_loop (Some ''dev'') [inst_dev] init_inventory"
proof -
  have e: "environments_of None = terraform_environments" by (simp add: environments_of_def)
  note a = two_envs_loop[folded e] bad_state_loop[folded e]
    cloud_only_loop[of "[[inst_dev, inst_staging]]" "environments_of (Some ''dev'')" init_inventory 0 home]
  have f: "filter (\<lambda>i. map_of (tags_of i) ''Environment'' = Some ''dev'')
             (cloud_instances (cloud_only [[inst_dev, inst_staging]])) = [inst_dev]"
    by (simp add: cloud_instances_def cloud_only_def tags_of_def inst_dev_def inst_staging_def)
  have h: "api_log home = []" by (simp add: home_def)
  note t1 = fallback_only_without_state_hosts
            [of world_two_envs None init_inventory home doc_two_envs 2 AttributeError]
  note t2 = fallback_only_without_state_hosts
            [of world_bad_state None init_inventory home doc_two_envs 2 AttributeError]
  note t3 = fallback_only_without_state_hosts
            [of "cloud_only [[inst_dev, inst_staging]]" "Some ''dev''" init_inventory home
                init_inventory 0 AttributeError]
  have w1: "api_log (snd (generate_inventory world_two_envs None init_inventory home)) = []"
    "fst (generate_inventory world_two_envs None init_inventory home) = Inr doc_two_envs"
    using t1 a(1) h by simp_all
  have w2: "api_log (snd (generate_inventory world_bad_state None init_inventory home)) = []"
    "fst (generate_inventory world_bad_state None init_inventory home) = Inl AttributeError"
    using t2 a(2) h by simp_all
  have w3: "api_log (snd (generate_inventory (cloud_only [[inst_dev, inst_staging]]) (Some ''dev'')
                   init_inventory home)) = [fallback_query ''ap-southeast-1'']"
    using t3[THEN conjunct1] a(3) h by simp
  have w4: "fst (generate_inventory (cloud_only [[inst_dev, inst_staging]]) (Some ''dev'')
          init_inventory home) = fallback_loop (Some ''dev'') [inst_dev] init_inventory"
    using t3[THEN conjunct2, THEN conjunct2, THEN conjunct2, THEN conjunct2] a(3)
    by (simp only: f truthy_str.simps) simp
  show ?thesis
    using a w1 w2 w3 by (simp add: w4)
qed

text \<open>
  Claim C2 does not hold of the state-backed generator's fallback: two running instances
  tagged with the same environment get the same hostname, which is appended to
  \<^verbatim>\<open>web_servers\<close> and to the environment's group once for each instance.
\<close>

theorem fallback_lists_host_twice:
  "(case fst (generate_inventory (cloud_only [[inst_dev, inst_dev_b]]) None init_inventory home) of
      Inl e \<Rightarrow> False
    | Inr doc \<Rightarrow>
        hosts_of doc ''web_servers'' = Inr [''dev-web-server'', ''dev-web-server''] \<and>
        hosts_of doc ''dev'' = Inr [''dev-web-server'', ''dev-web-server''] \<and>
        map fst (hostvars doc) = [''dev-web-server''] \<and>
        \<not> no_duplicates doc)"
proof -
  obtain p1 where l: "env_loop (cloud_only [[inst_dev, inst_dev_b]]) (environments_of None)
      (init_inventory, 0) home = (Inr (init_inventory, 0), p1)"
    using cloud_only_loop[of "[[inst_dev, inst_dev_b]]" "environments_of None" init_inventory 0 home]
    by (cases "env_loop (cloud_only [[inst_dev, inst_dev_b]]) (environments_of None)
                 (init_inventory, 0) home") simp
  have g: "fst (generate_inventory (cloud_only [[inst_dev, inst_dev_b]]) None init_inventory home) =
      fallback_loop None (cloud_instances (cloud_only [[inst_dev, inst_dev_b]])) init_inventory"
    by (simp add: generate_inventory_def l get_ec2_instances_from_aws_eq)
  have c: "cloud_instances (cloud_only [[inst_dev, inst_dev_b]]) = [inst_dev, inst_dev_b]"
    by (simp add: cloud_instances_def cloud_only_def)
  show ?thesis
    unfolding g c
    by (simp add: fallback_step_def extract_host_info_from_ec2_def tags_of_def
          key_name_of_def Let_def inst_dev_def inst_dev_b_def init_inventory_def
          add_host_to_inventory_def has_key_def set_hostvars_def set_group_def append_host_def
          hosts_of_def no_duplicates_def)
qed

text \<open>
  Claim C8: for a hostname that is not a key of the document's host variables the lookup
  gives the empty record, and host mode prints it, for either source; the lookup itself
  cannot raise.
\<close>

theorem get_host_vars_unknown_host:
  "(hostname \<notin> fst ` set (hostvars doc) \<longrightarrow> get_host_vars doc hostname = []) \<and>
   (\<not> arg_list a \<and> arg_host a = Some hostname \<and> hostname \<noteq> [] \<and> arg_source a = EC2 \<and>
    hostname \<notin> fst ` set (hostvars (fst (ec2_generate_inventory X (arg_region a)
                                          init_inventory p))) \<longrightarrow>
      fst (main X a p) = PrintHostVars []) \<and>
   (\<not> arg_list a \<and> arg_host a = Some hostname \<and> hostname \<noteq> [] \<and> arg_source a = Terraform \<and>
    fst (generate_inventory X None init_inventory p) = Inr doc \<and>
    hostname \<notin> fst ` set (hostvars doc) \<longrightarrow>
      fst (main X a p) = PrintHostVars [])"
proof -
  have g: "\<And>d. hostname \<notin> fst ` set (hostvars d) \<Longrightarrow> get_host_vars d hostname = []"
    by (simp add: get_host_vars_def map_of_eq_None_iff[symmetric])
  show ?thesis
    using g by (auto simp: main_def split: prod.splits sum.splits)
qed

theorem get_host_vars_unknown_host_witness:
  "''prod-web-server'' \<notin> fst ` set (hostvars doc_two_envs) \<and>
   \<not> arg_list host_args \<and> arg_host host_args = Some ''prod-web-server'' \<and>
   ''prod-web-server'' \<noteq> [] \<and> arg_source host_args = Terraform \<and>
   fst (generate_inventory world_two_envs None init_inventory home) = Inr doc_two_envs \<and>
   get_host_vars doc_two_envs ''prod-web-server'' = [] \<and>
   fst (main world_two_envs host_args home) = PrintHostVars []"
proof -
  have e: "environments_of None = terraform_environments" by (simp add: environments_of_def)
  obtain p1 where l: "env_loop world_two_envs (environments_of None) (init_inventory, 0) home =
      (Inr (doc_two_envs, 2), p1)"
    using two_envs_loop[folded e]
    by (cases "env_loop world_two_envs (environments_of None) (init_inventory, 0) home") simp
  have g: "fst (generate_inventory world_two_envs None init_inventory home) = Inr doc_two_envs"
    by (simp add: generate_inventory_def l)
  have k: "''prod-web-server'' \<notin> fst ` set (hostvars doc_two_envs)"
    by (simp add: doc_two_envs_def)
  show ?thesis
    using get_host_vars_unknown_host
            [of "''prod-web-server''" doc_two_envs host_args world_two_envs home]
          g k
    by (simp add: host_args_def)
qed


lemma generate_inventory_api_log:
  "api_log (snd (generate_inventory X specific_env doc p)) = api_log p \<or>
   api_log (snd (generate_inventory X specific_env doc p)) =
     api_log p @ [fallback_query ''ap-southeast-1'']"
proof -
  obtain r p1 where l: "env_loop X (environments_of specific_env) (doc, 0) p = (r, p1)"
    by (cases "env_loop X (environments_of specific_env) (doc, 0) p")
  have lg: "api_log p1 = api_log p"
    using env_loop_api_log[of X "environments_of specific_env" "(doc, 0)" p] l by simp
  show ?thesis
    using lg
    by (auto simp: generate_inventory_def l get_ec2_instances_from_aws_eq split: sum.splits)
qed

text \<open>
  Claim C10: with the state-backed source the region option changes nothing, neither what
  is printed nor the process state; every query of that source goes to the region
  \<^verbatim>\<open>ap-southeast-1\<close>, and the option reaches only the query of the API-backed generator.
\<close>

theorem region_option_ignored_by_state_backed:
  "(arg_source a = Terraform \<longrightarrow> main X (a\<lparr>arg_region := r\<rparr>) p = main X a p) \<and>
   (arg_source a = Terraform \<longrightarrow>
      api_log (snd (main X a p)) = api_log p \<or>
      api_log (snd (main X a p)) = api_log p @ [fallback_query ''ap-southeast-1'']) \<and>
   (arg_source a = EC2 \<and> (arg_list a \<or> truthy_str (arg_host a)) \<longrightarrow>
      api_log (snd (main X a p)) = api_log p @ [ec2_query (arg_region a)])"
proof -
  have 1: "arg_source a = Terraform \<Longrightarrow> main X (a\<lparr>arg_region := r\<rparr>) p = main X a p"
    by (simp add: main_def split: prod.splits sum.splits)
  have 2: "arg_source a = Terraform \<Longrightarrow>
      api_log (snd (main X a p)) = api_log p \<or>
      api_log (snd (main X a p)) = api_log p @ [fallback_query ''ap-southeast-1'']"
    using generate_inventory_api_log[of X "arg_env a" init_inventory p]
          generate_inventory_api_log[of X None init_inventory p]
    by (auto simp: main_def split: prod.splits sum.splits)
  have 3: "arg_source a = EC2 \<Longrightarrow> arg_list a \<or> truthy_str (arg_host a) \<Longrightarrow>
      api_log (snd (main X a p)) = api_log p @ [ec2_query (arg_region a)]"
    by (auto simp: main_def ec2_generate_inventory_def Let_def split: prod.splits sum.splits)
  show ?thesis using 1 2 3 by blast
qed

theorem region_option_ignored_by_state_backed_witness:
  "arg_source list_args = Terraform \<and>
   main (cloud_only [[inst_dev]]) (list_args\<lparr>arg_region := ''eu-west-1''\<rparr>) home =
     main (cloud_only [[inst_dev]]) list_args home \<and>
   api_log (snd (main (cloud_only [[inst_dev]]) list_args home)) =
     [fallback_query ''ap-southeast-1''] \<and>
   arg_source (list_args\<lparr>arg_source := EC2\<rparr>) = EC2 \<and>
   arg_list (list_args\<lparr>arg_source := EC2\<rparr>) \<and>
   api_log (snd (main (cloud_only [[inst_dev]]) (list_args\<lparr>arg_source := EC2\<rparr>) home)) =
     [ec2_query ''us-east-1'']"
proof -
  have s: "arg_source list_args = Terraform" "arg_list list_args"
    "arg_region list_args = ''us-east-1''" "arg_env list_args = None"
    by (simp_all add: list_args_def)
  obtain p1 where l: "env_loop (cloud_only [[inst_dev]]) (environments_of None)
      (init_inventory, 0) home = (Inr (init_inventory, 0), p1)"
    using cloud_only_loop[of "[[inst_dev]]" "environments_of None" init_inventory 0 home]
    by (cases "env_loop (cloud_only [[inst_dev]]) (environments_of None) (init_inventory, 0) home")
       simp
  have lg: "api_log p1 = []"
    using env_loop_api_log[of "cloud_only [[inst_dev]]" "environments_of None"
            "(init_inventory, 0)" home] l
    by (simp add: home_def)
  have q: "api_log (snd (main (cloud_only [[inst_dev]]) list_args home)) =
     [fallback_query ''ap-southeast-1'']"
    by (simp add: main_def s generate_inventory_def l get_ec2_instances_from_aws_eq lg
          split: sum.splits)
  show ?thesis
    using region_option_ignored_by_state_backed
            [of list_args "cloud_only [[inst_dev]]" "''eu-west-1''" home]
          region_option_ignored_by_state_backed
            [of "list_args\<lparr>arg_source := EC2\<rparr>" "cloud_only [[inst_dev]]" "''eu-west-1''" home]
          s q
    by (simp add: home_def)
qed

section \<open>The state-backed generator: hosts from state\<close>

lemma member_has_key: "member_of_group doc g h \<Longrightarrow> has_key doc g"
  by (auto simp: member_of_group_def hosts_of_Inr_has_key split: sum.splits)

text \<open>Create the group when it is missing, then append.\<close>

lemma ensure_append:
  assumes "append_host (if \<not> has_key d g then set_group d g G0 else d) g h = Inr d'"
    and "hosts G0 = Some []"
  shows "member_of_group d' g h"
    and "hostvars d' = hostvars d"
    and "\<And>g' h'. member_of_group d g' h' \<Longrightarrow> member_of_group d' g' h'"
    and "\<And>k. k \<noteq> g \<Longrightarrow> map_of (groups d') k = map_of (groups d) k"
proof -
  let ?d0 = "if \<not> has_key d g then set_group d g G0 else d"
  have h0: "hosts_of d' g = (case hosts_of ?d0 g of Inl e \<Rightarrow> Inl e | Inr hs \<Rightarrow> Inr (hs @ [h]))"
    using hosts_of_append_host[OF assms(1), of g] by simp
  have ok: "\<exists>hs. hosts_of ?d0 g = Inr hs"
    using assms(1) by (auto simp: append_host_hosts_of split: sum.splits)
  show "member_of_group d' g h"
    using h0 ok by (auto simp: member_of_group_def)
  show "hostvars d' = hostvars d"
    using hostvars_append_host[OF assms(1)] by (simp split: if_splits)
  show "member_of_group d' g' h'" if m: "member_of_group d g' h'" for g' h'
  proof -
    have k: "has_key d g'" using m by (rule member_has_key)
    show ?thesis
    proof (cases "g' = g")
      case True
      then have "?d0 = d" using k by simp
      then show ?thesis using m h0 True by (auto simp: member_of_group_def split: sum.splits)
    next
      case False
      have "hosts_of d' g' = hosts_of ?d0 g'"
        using hosts_of_append_host[OF assms(1), of g'] False by simp
      also have "\<dots> = hosts_of d g'" using False by (simp add: hosts_of_set_group)
      finally show ?thesis using m by (simp add: member_of_group_def)
    qed
  qed
  show "map_of (groups d') k = map_of (groups d) k" if "k \<noteq> g" for k
    using assms(1) that by (auto simp: append_host_Inr split: if_splits)
qed

lemma add_host_to_inventory_Inr:
  assumes "add_host_to_inventory doc env host_info = Inr doc'"
  shows "hostvars doc' = AList.update (env @ ''-web-server'') host_info (hostvars doc)"
    and "member_of_group doc' ''web_servers'' (env @ ''-web-server'')"
    and "member_of_group doc' env (env @ ''-web-server'')"
    and "map_of (groups doc') ''all'' \<noteq> None"
    and "\<And>g h. member_of_group doc g h \<Longrightarrow> member_of_group doc' g h"
    and "env \<noteq> ''all'' \<Longrightarrow> map_of (groups doc) ''all'' \<in> {None, Some all_group} \<Longrightarrow>
         map_of (groups doc') ''all'' = Some all_group"
proof -
  let ?hn = "env @ ''-web-server''"
  let ?d1 = "set_hostvars doc ?hn host_info"
  let ?G1 = "\<lparr>hosts = Some [], vars = Some []\<rparr>"
  let ?G2 = "\<lparr>hosts = Some [], vars = Some [(''environment'', JStr env)]\<rparr>"
  obtain d3 where a1: "append_host (if \<not> has_key ?d1 ''web_servers'' then set_group ?d1 ''web_servers'' ?G1 else ?d1)
        ''web_servers'' ?hn = Inr d3"
    using assms by (auto simp: add_host_to_inventory_def Let_def split: sum.splits)
  obtain d5 where a2: "append_host (if \<not> has_key d3 env then set_group d3 env ?G2 else d3) env ?hn = Inr d5"
    using assms a1 by (auto simp: add_host_to_inventory_def Let_def split: sum.splits)
  have fin: "doc' = (if \<not> has_key d5 ''all'' then set_group d5 ''all'' \<lparr>hosts = None, vars = Some all_vars\<rparr> else d5)"
    using assms a1 a2 by (simp add: add_host_to_inventory_def Let_def)
  note e1 = ensure_append[OF a1, simplified]
  note e2 = ensure_append[OF a2, simplified]
  have mono5: "\<And>g h. member_of_group d5 g h \<Longrightarrow> member_of_group doc' g h"
  proof -
    fix g h assume m: "member_of_group d5 g h"
    show "member_of_group doc' g h"
    proof (cases "has_key d5 ''all''")
      case True
      then show ?thesis using m fin by simp
    next
      case False
      then have "g \<noteq> ''all''" using member_has_key[OF m] by auto
      then show ?thesis using m fin False
        by (simp add: member_of_group_def hosts_of_set_group)
    qed
  qed
  show "hostvars doc' = AList.update ?hn host_info (hostvars doc)"
    using fin e1(2) e2(2) by (simp add: set_hostvars_def)
  show "member_of_group doc' ''web_servers'' ?hn"
    using e1(1) e2(3) mono5 by blast
  show "member_of_group doc' env ?hn"
    using e2(1) mono5 by blast
  show "map_of (groups doc') ''all'' \<noteq> None"
    using fin by (auto simp: has_key_def)
  show "member_of_group doc' g h" if "member_of_group doc g h" for g h
    using that e1(3) e2(3) mono5 by blast
  show "map_of (groups doc') ''all'' = Some all_group"
    if "env \<noteq> ''all''" "map_of (groups doc) ''all'' \<in> {None, Some all_group}"
  proof -
    have "map_of (groups d5) ''all'' = map_of (groups doc) ''all''"
      using e1(4)[of "''all''"] e2(4)[of "''all''"] that(1) by simp
    then show ?thesis using fin that(2) by (auto simp: has_key_def all_group_def)
  qed
qed


lemma filter_key_once:
  "distinct (map fst al) \<Longrightarrow> map_of al k \<noteq> None \<Longrightarrow>
   length (filter (\<lambda>(h, v). h = k) al) = 1"
proof (induction al)
  case Nil
  then show ?case by simp
next
  case (Cons a al)
  obtain h v where a: "a = (h, v)" by (cases a)
  show ?case
  proof (cases "h = k")
    case True
    then have "k \<notin> fst ` set al" using Cons.prems(1) a by simp
    then have "filter (\<lambda>(h, v). h = k) al = []"
      by (fastforce simp: filter_empty_conv image_iff)
    then show ?thesis using True a by simp
  next
    case False
    then show ?thesis using Cons a by simp
  qed
qed

text \<open>What one iteration can do to the document and the count.\<close>

lemma env_step_Inr:
  assumes "fst (env_step X env (d, n) p) = Inr (d', n')"
  shows "(d' = d \<and> n' = n) \<or>
         (\<exists>host_info. add_host_to_inventory d env host_info = Inr d' \<and> n' = Suc n)"
  using assms
  by (auto simp: env_step_fst[of X env "(d, n)" p p] Let_def
           split: sum.splits bool.splits option.splits if_splits)

lemma env_step_valid:
  assumes "fst (env_step X env (d, n) p) = Inr (d', n')"
    and "fst (check_terraform_state X env q) = Inr True"
    and "well_formed_outputs (fst (get_terraform_outputs X env q))"
    and "has_public_ip (fst (get_terraform_outputs X env q))"
  shows "\<exists>host_info. add_host_to_inventory d env host_info = Inr d' \<and> n' = Suc n"
proof -
  obtain hi where "truthy (fst (get_terraform_outputs X env q))"
    "extract_host_info_from_terraform X env (fst (get_terraform_outputs X env q)) = Some hi"
    using extract_terraform_Some[OF assms(3,4)] by blast
  then show ?thesis
    using assms(1,2) by (auto simp: env_step_fst[of X env "(d, n)" p q] split: sum.splits)
qed

lemma env_loop_Cons_fst:
  "fst (env_loop X (env # envs) s p) =
     (case fst (env_step X env s p) of
        Inl e \<Rightarrow> Inl e
      | Inr s' \<Rightarrow> fst (env_loop X envs s' p))"
proof -
  obtain r p1 where e: "env_step X env s p = (r, p1)" by (cases "env_step X env s p")
  show ?thesis
    using env_loop_fst[of X envs _ p1 p] by (simp add: e split: sum.splits)
qed

lemma grows_refl: "grows d d"
  by (simp add: grows_def)

lemma grows_trans: "grows a b \<Longrightarrow> grows b c \<Longrightarrow> grows a c"
  by (simp add: grows_def)

lemma add_host_grows:
  assumes "add_host_to_inventory d env host_info = Inr d'"
  shows "grows d d'"
  using add_host_to_inventory_Inr(1,4,5)[OF assms]
  by (auto simp: grows_def update_conv' distinct_update)

lemma env_step_grows:
  "fst (env_step X env (d, n) p) = Inr (d', n') \<Longrightarrow> grows d d' \<and> n \<le> n'"
  using env_step_Inr[of X env d n p d' n'] by (auto simp: grows_refl add_host_grows)

lemma env_loop_grows:
  "fst (env_loop X envs (d, n) p) = Inr (d', n') \<Longrightarrow> grows d d' \<and> n \<le> n'"
proof (induction envs arbitrary: d n)
  case Nil
  then show ?case by (simp add: grows_refl)
next
  case (Cons env envs)
  from Cons.prems[unfolded env_loop_Cons_fst]
  obtain d1 n1 where s: "fst (env_step X env (d, n) p) = Inr (d1, n1)"
    and l: "fst (env_loop X envs (d1, n1) p) = Inr (d', n')"
    by (auto split: sum.splits)
  show ?case
    using env_step_grows[OF s] Cons.IH[OF l] by (auto intro: grows_trans)
qed

lemma env_loop_all_group:
  assumes "fst (env_loop X envs (d, n) p) = Inr (d', n')"
    and "''all'' \<notin> set envs"
    and "map_of (groups d) ''all'' \<in> {None, Some all_group}"
  shows "map_of (groups d') ''all'' \<in> {None, Some all_group}"
  using assms
proof (induction envs arbitrary: d n)
  case Nil
  then show ?case by simp
next
  case (Cons env envs)
  from Cons.prems(1)[unfolded env_loop_Cons_fst]
  obtain d1 n1 where s: "fst (env_step X env (d, n) p) = Inr (d1, n1)"
    and l: "fst (env_loop X envs (d1, n1) p) = Inr (d', n')"
    by (auto split: sum.splits)
  have "map_of (groups d1) ''all'' \<in> {None, Some all_group}"
    using env_step_Inr[OF s] Cons.prems(2,3) add_host_to_inventory_Inr(6)[of d env _ d1]
    by auto
  then show ?case using Cons.IH[OF l] Cons.prems(2) by simp
qed

lemma env_loop_found:
  assumes "fst (env_loop X envs (d, n) p) = Inr (d', n')"
    and "env \<in> set envs"
    and "fst (check_terraform_state X env q) = Inr True"
    and "well_formed_outputs (fst (get_terraform_outputs X env q))"
    and "has_public_ip (fst (get_terraform_outputs X env q))"
  shows "n < n' \<and> map_of (hostvars d') (env @ ''-web-server'') \<noteq> None \<and>
         member_of_group d' ''web_servers'' (env @ ''-web-server'') \<and>
         member_of_group d' env (env @ ''-web-server'') \<and>
         map_of (groups d') ''all'' \<noteq> None"
  using assms(1,2)
proof (induction envs arbitrary: d n)
  case Nil
  then show ?case by simp
next
  case (Cons e envs)
  from Cons.prems(1)[unfolded env_loop_Cons_fst]
  obtain d1 n1 where s: "fst (env_step X e (d, n) p) = Inr (d1, n1)"
    and l: "fst (env_loop X envs (d1, n1) p) = Inr (d', n')"
    by (auto split: sum.splits)
  show ?case
  proof (cases "e = env")
    case True
    obtain hi where a: "add_host_to_inventory d env hi = Inr d1" and n1: "n1 = Suc n"
      using env_step_valid[OF s[unfolded True] assms(3,4,5)] by blast
    have "map_of (hostvars d1) (env @ ''-web-server'') \<noteq> None"
      using add_host_to_inventory_Inr(1)[OF a] by (simp add: update_conv')
    then show ?thesis
      using env_loop_grows[OF l] add_host_to_inventory_Inr(2,3,4)[OF a] n1
      by (simp add: grows_def)
  next
    case False
    then have "env \<in> set envs" using Cons.prems(2) by simp
    then show ?thesis using Cons.IH[OF l] env_step_grows[OF s] by auto
  qed
qed

lemma environments_of_all:
  "env \<in> set (environments_of specific_env) \<Longrightarrow> env \<noteq> ''all'' \<Longrightarrow>
   ''all'' \<notin> set (environments_of specific_env)"
  by (auto simp: environments_of_def terraform_environments_def split: option.splits if_splits)

text \<open>
  What the state-backed generator does give: when it returns a document, every environment
  of its working set that has valid state and well-formed outputs with a public address
  has exactly one host named \<^verbatim>\<open><env>-web-server\<close> in the document, and that hostname is
  a member of the host lists of the groups \<^verbatim>\<open>web_servers\<close> and \<^verbatim>\<open><env>\<close>. The group
  \<^verbatim>\<open>all\<close> is in the document; unless the environment is itself named \<^verbatim>\<open>all\<close>, it holds
  the default variables and no host list.
\<close>

theorem state_host_in_groups:
  assumes "fst (generate_inventory X specific_env init_inventory p) = Inr doc"
    and "env \<in> set (environments_of specific_env)"
    and "fst (check_terraform_state X env p) = Inr True"
    and "well_formed_outputs (fst (get_terraform_outputs X env p))"
    and "has_public_ip (fst (get_terraform_outputs X env p))"
  shows "length (filter (\<lambda>(h, v). h = env @ ''-web-server'') (hostvars doc)) = 1 \<and>
         member_of_group doc ''web_servers'' (env @ ''-web-server'') \<and>
         member_of_group doc env (env @ ''-web-server'') \<and>
         map_of (groups doc) ''all'' \<noteq> None \<and>
         (env \<noteq> ''all'' \<longrightarrow> map_of (groups doc) ''all'' = Some all_group)"
proof -
  obtain r p1 where l: "env_loop X (environments_of specific_env) (init_inventory, 0) p = (r, p1)"
    by (cases "env_loop X (environments_of specific_env) (init_inventory, 0) p")
  obtain d1 n where r: "r = Inr (d1, n)"
    using assms(1) by (cases r) (auto simp: generate_inventory_def l)
  have lf: "fst (env_loop X (environments_of specific_env) (init_inventory, 0) p) = Inr (d1, n)"
    by (simp add: l r)
  note f = env_loop_found[OF lf assms(2,3,4,5)]
  then have "0 < n" by simp
  then have doc: "doc = d1" using assms(1) by (simp add: generate_inventory_def l r)
  have "distinct (map fst (hostvars d1))"
    using env_loop_grows[OF lf] by (simp add: grows_def init_inventory_def)
  then have one: "length (filter (\<lambda>(h, v). h = env @ ''-web-server'') (hostvars d1)) = 1"
    using f by (simp add: filter_key_once)
  have "map_of (groups d1) ''all'' = Some all_group" if "env \<noteq> ''all''"
    using env_loop_all_group[OF lf environments_of_all[OF assms(2) that]] f
    by (auto simp: init_inventory_def)
  then show ?thesis using one f doc by simp
qed


lemma two_envs_generate:
  "fst (generate_inventory world_two_envs None init_inventory home) = Inr doc_two_envs"
proof -
  have e: "environments_of None = terraform_environments" by (simp add: environments_of_def)
  obtain p1 where l: "env_loop world_two_envs (environments_of None) (init_inventory, 0) home =
      (Inr (doc_two_envs, 2), p1)"
    using two_envs_loop[folded e]
    by (cases "env_loop world_two_envs (environments_of None) (init_inventory, 0) home") simp
  show ?thesis by (simp add: generate_inventory_def l)
qed

lemma two_envs_staging:
  "fst (check_terraform_state world_two_envs ''staging'' home) = Inr True"
  "fst (get_terraform_outputs world_two_envs ''staging'' home) =
     JObj [(''public_ip'', JObj [(''value'', JStr ''5.6.7.8'')])]"
  by (simp_all add: tf_world_defs tf_defs)

text \<open>
  Claim C1 (an environment with valid state and a public address has exactly one host
  \<^verbatim>\<open><env>-web-server\<close>, a member of the host lists of \<^verbatim>\<open>all\<close>, \<^verbatim>\<open>web_servers\<close> and
  \<^verbatim>\<open><env>\<close>) is not met by the code for the group \<^verbatim>\<open>all\<close>. With valid state and the
  public addresses 1.2.3.4 and 5.6.7.8 for \<^verbatim>\<open>dev\<close> and \<^verbatim>\<open>staging\<close>, the document that is
  returned has the group \<^verbatim>\<open>all\<close> with its variables and no host list, so the lookup of
  its hosts is a \<^verbatim>\<open>KeyError\<close> and neither hostname is a member of it, while both are
  members of \<^verbatim>\<open>web_servers\<close>.
\<close>

theorem state_host_missing_from_all:
  "fst (generate_inventory world_two_envs None init_inventory home) = Inr doc_two_envs \<and>
   fst (check_terraform_state world_two_envs ''dev'' home) = Inr True \<and>
   well_formed_outputs (fst (get_terraform_outputs world_two_envs ''dev'' home)) \<and>
   has_public_ip (fst (get_terraform_outputs world_two_envs ''dev'' home)) \<and>
   map_of (groups doc_two_envs) ''all'' = Some \<lparr>hosts = None, vars = Some all_vars\<rparr> \<and>
   hosts_of doc_two_envs ''all'' = Inl KeyError \<and>
   \<not> member_of_group doc_two_envs ''all'' ''dev-web-server'' \<and>
   \<not> member_of_group doc_two_envs ''all'' ''staging-web-server'' \<and>
   hosts_of doc_two_envs ''web_servers'' = Inr [''dev-web-server'', ''staging-web-server'']"
  by (simp add: two_envs_generate two_envs_dev_state two_envs_dev_outputs well_formed_outputs_def
        has_public_ip_def output_value_def member_of_group_def hosts_of_def doc_two_envs_def)

theorem state_host_in_groups_witness:
  "fst (generate_inventory world_two_envs None init_inventory home) = Inr doc_two_envs \<and>
   ''staging'' \<in> set (environments_of None) \<and>
   fst (check_terraform_state world_two_envs ''staging'' home) = Inr True \<and>
   well_formed_outputs (fst (get_terraform_outputs world_two_envs ''staging'' home)) \<and>
   has_public_ip (fst (get_terraform_outputs world_two_envs ''staging'' home)) \<and>
   length (filter (\<lambda>(h, v). h = ''staging-web-server'') (hostvars doc_two_envs)) = 1 \<and>
   member_of_group doc_two_envs ''web_servers'' ''staging-web-server'' \<and>
   member_of_group doc_two_envs ''staging'' ''staging-web-server'' \<and>
   map_of (groups doc_two_envs) ''all'' = Some all_group"
proof -
  have a: "''staging'' \<in> set (environments_of None)"
    by (simp add: environments_of_def terraform_environments_def)
  have b: "well_formed_outputs (fst (get_terraform_outputs world_two_envs ''staging'' home))"
    "has_public_ip (fst (get_terraform_outputs world_two_envs ''staging'' home))"
    by (simp_all add: two_envs_staging well_formed_outputs_def has_public_ip_def output_value_def)
  have c: "''staging'' \<noteq> ''all''" by simp
  show ?thesis
    using state_host_in_groups [OF two_envs_generate a two_envs_staging(1) b] a b c
    by (simp add: two_envs_generate two_envs_staging(1))
qed

end
